theory Spec2Isabelle
  imports Main
begin

section \<open>Values of the host language\<close>

text \<open>
  The program is TypeScript. Its strings are modelled by \<open>string\<close>, one \<open>char\<close> per
  code unit, over the code points U+0000 to U+00FF (Latin-1); on that range lower-casing
  and the regular expression class \<^verbatim>\<open>\s\<close> work character by character.
  A value that came out of \<^verbatim>\<open>JSON.parse\<close>, or that travels over the peer
  protocol, is a \<open>json\<close>; the numbers that occur are counts and are integers.
  An object is an association list read with \<open>map_of\<close>. The value \<^verbatim>\<open>undefined\<close>
  is \<open>None\<close> of \<open>json option\<close>. Console output is not modelled.
\<close>

datatype json =
    JNull
  | JBool bool
  | JNum int
  | JStr string
  | JArr "json list"
  | JObj "(string \<times> json) list"

text \<open>
  A thrown value: an instance of \<^verbatim>\<open>Error\<close> with its message, or any other value,
  kept as the text \<^verbatim>\<open>String(value)\<close> gives.
\<close>

datatype thrown = Error string | NonError string

text \<open>\<^verbatim>\<open>error instanceof Error ? error.message : String(error)\<close>\<close>

fun message_of :: "thrown \<Rightarrow> string" where
  "message_of (Error m) = m"
| "message_of (NonError s) = s"

definition quoted :: "string \<Rightarrow> string" where
  "quoted k = [CHR 0x27] @ k @ [CHR 0x27]"

text \<open>
  Property read \<^verbatim>\<open>v.k\<close>. Reading from \<^verbatim>\<open>null\<close> or \<^verbatim>\<open>undefined\<close> throws a
  TypeError (the wording is the engine's); an object gives its entry or
  \<^verbatim>\<open>undefined\<close>; a primitive or an array has none of the keys this program reads.
\<close>

fun get_prop :: "json option \<Rightarrow> string \<Rightarrow> thrown + json option" where
  "get_prop None k =
     Inl (Error (''Cannot read properties of undefined (reading '' @ quoted k @ '')''))"
| "get_prop (Some JNull) k =
     Inl (Error (''Cannot read properties of null (reading '' @ quoted k @ '')''))"
| "get_prop (Some (JObj kvs)) k = Inr (map_of kvs k)"
| "get_prop (Some v) k = Inr None"

text \<open>Truthiness, as \<^verbatim>\<open>||\<close> and \<^verbatim>\<open>!\<close> read it.\<close>

fun truthy :: "json option \<Rightarrow> bool" where
  "truthy None = False"
| "truthy (Some JNull) = False"
| "truthy (Some (JBool b)) = b"
| "truthy (Some (JNum n)) = (n \<noteq> 0)"
| "truthy (Some (JStr s)) = (s \<noteq> [])"
| "truthy (Some (JArr xs)) = True"
| "truthy (Some (JObj kvs)) = True"

subsection \<open>Strings\<close>

definition is_upper :: "char \<Rightarrow> bool" where
  "is_upper c =
     (let n = (of_char c :: nat)
      in (65 \<le> n \<and> n \<le> 90) \<or> (192 \<le> n \<and> n \<le> 222 \<and> n \<noteq> 215))"

definition toLowerCase_char :: "char \<Rightarrow> char" where
  "toLowerCase_char c = (if is_upper c then char_of (of_char c + (32 :: nat)) else c)"

text \<open>\<^verbatim>\<open>s.toLowerCase()\<close>\<close>

definition toLowerCase :: "string \<Rightarrow> string" where
  "toLowerCase s = map toLowerCase_char s"

text \<open>
  The class \<^verbatim>\<open>\s\<close>: tab, line feed, vertical tab, form feed, carriage return,
  space and no-break space.
\<close>

definition is_whitespace :: "char \<Rightarrow> bool" where
  "is_whitespace c = ((of_char c :: nat) \<in> {9, 10, 11, 12, 13, 32, 160})"

text \<open>
  \<^verbatim>\<open>s.replace(/\s+/g, '-')\<close>: every maximal run of whitespace becomes one hyphen.
\<close>

function replace_whitespace_runs :: "string \<Rightarrow> string" where
  "replace_whitespace_runs [] = []"
| "replace_whitespace_runs (c # cs) =
     (if is_whitespace c then CHR ''-'' # replace_whitespace_runs (dropWhile is_whitespace cs)
      else c # replace_whitespace_runs cs)"
  by pat_completeness auto
termination
proof (relation "measure length")
  fix c :: char and cs :: string
  have "length (dropWhile is_whitespace cs) \<le> length cs"
    by (rule length_dropWhile_le)
  then show "(dropWhile is_whitespace cs, c # cs) \<in> measure length"
    by simp
qed simp_all

text \<open>Decimal text of a number, as a template literal prints it.\<close>

fun string_of_nat :: "nat \<Rightarrow> string" where
  "string_of_nat n =
     (if n < 10 then [char_of (48 + n)]
      else string_of_nat (n div 10) @ [char_of (48 + n mod 10)])"

definition string_of_int :: "int \<Rightarrow> string" where
  "string_of_int i = (if i < 0 then CHR ''-'' # string_of_nat (nat (- i)) else string_of_nat (nat i))"

text \<open>
  \<^verbatim>\<open>String(v)\<close> and the text \<^verbatim>\<open>Array.prototype.join\<close> gives an element:
  \<^verbatim>\<open>null\<close> and \<^verbatim>\<open>undefined\<close> join as the empty string.
\<close>

fun intercalate :: "string \<Rightarrow> string list \<Rightarrow> string" where
  "intercalate sep [] = []"
| "intercalate sep [x] = x"
| "intercalate sep (x # y # ys) = x @ sep @ intercalate sep (y # ys)"

fun js_String :: "json \<Rightarrow> string" where
  "js_String JNull = ''null''"
| "js_String (JBool b) = (if b then ''true'' else ''false'')"
| "js_String (JNum n) = string_of_int n"
| "js_String (JStr s) = s"
| "js_String (JArr xs) =
     intercalate '','' (map (\<lambda>x. if x = JNull then [] else js_String x) xs)"
| "js_String (JObj kvs) = ''[object Object]''"

definition join_element :: "json option \<Rightarrow> string" where
  "join_element v = (case v of None \<Rightarrow> [] | Some JNull \<Rightarrow> [] | Some x \<Rightarrow> js_String x)"

section \<open>The shared types (types.ts)\<close>

record ServerCapabilities =
  tools :: "json list"
  resources :: "json list"
  prompts :: "json list"

record Metadata =
  analyzedAt :: string
  toolCount :: int
  resourceCount :: int
  promptCount :: int

text \<open>\<^verbatim>\<open>WrapperConfig\<close>, the output type of \<^verbatim>\<open>WrapperConfigSchema\<close>.\<close>

record WrapperConfig =
  name :: string
  description :: string
  serverPath :: string
  args :: "string list"
  systemPrompt :: string
  capabilities :: ServerCapabilities
  metadata :: Metadata

record ToolDefinition =
  td_name :: string
  td_description :: string
  inputSchema :: json

section \<open>The wrapper (wrapper.ts): the expert tool\<close>

definition expert_inputSchema :: json where
  "expert_inputSchema =
     JObj [(''type'', JStr ''object''),
           (''properties'', JObj [
              (''query'', JObj [(''type'', JStr ''string''),
                                (''description'', JStr ''Your request or question'')]),
              (''mode'', JObj [(''type'', JStr ''string''),
                               (''enum'', JArr [JStr ''discover'', JStr ''execute'', JStr ''explain'']),
                               (''description'', JStr ''Operation mode'')])]),
           (''required'', JArr [JStr ''query''])]"

definition createExpertTool :: "WrapperConfig \<Rightarrow> ToolDefinition" where
  "createExpertTool config =
     (let toolName = replace_whitespace_runs (toLowerCase (name config))
      in \<lparr> td_name = toolName, td_description = description config,
           inputSchema = expert_inputSchema \<rparr>)"

section \<open>The outside world\<close>

text \<open>
  The peer, the planner, the file system, the clock and the serving transport are outside
  the program. Their behaviour is a parameter: an environment \<open>E\<close> of operations over a
  world \<open>'w\<close>, each returning its outcome and the next world. What the program did to
  them is recorded, in order, in a trace of events carried beside the world.
  \<^verbatim>\<open>JSON.parse\<close>, \<^verbatim>\<open>JSON.stringify(v, null, 2)\<close>, \<^verbatim>\<open>path.join\<close> and the text
  of a \<^verbatim>\<open>ZodError\<close> belong to the libraries and are parameters as well, and so is
  the wording of the engine's TypeError for a value that cannot be iterated.
\<close>

datatype event =
    EvConnect string "string list"
  | EvListTools
  | EvListResources
  | EvListPrompts
  | EvCallTool "json option" "json option"
  | EvClientClose
  | EvGenerateText string
  | EvMkdir string
  | EvWriteFile string string
  | EvReadFile string
  | EvServerClose
  | EvExit int

record CallToolResult =
  content :: "json option"

datatype path_elem = Key string | Index nat

text \<open>A validation issue: where in the input, and what the schema expected there.\<close>

type_synonym issue = "path_elem list \<times> string"

record 'w env =
  OPENAI_API_KEY :: "string option"
  process_cwd :: string
  path_join :: "string \<Rightarrow> string \<Rightarrow> string"
  JSON_parse :: "string \<Rightarrow> thrown + json"
  JSON_stringify :: "json \<Rightarrow> string"
  ZodError_message :: "issue list \<Rightarrow> string"
  not_iterable_message :: "json \<Rightarrow> string"
  Date_now :: "'w \<Rightarrow> nat"
  Date_toISOString :: "'w \<Rightarrow> string"
  peer_connect :: "string \<Rightarrow> string list \<Rightarrow> 'w \<Rightarrow> (thrown + unit) \<times> 'w"
  peer_listTools :: "'w \<Rightarrow> (thrown + json list option) \<times> 'w"
  peer_listResources :: "'w \<Rightarrow> (thrown + json list option) \<times> 'w"
  peer_listPrompts :: "'w \<Rightarrow> (thrown + json list option) \<times> 'w"
  peer_callTool :: "json option \<Rightarrow> json option \<Rightarrow> 'w \<Rightarrow> (thrown + CallToolResult) \<times> 'w"
  peer_close :: "'w \<Rightarrow> (thrown + unit) \<times> 'w"
  llm_generateText :: "string \<Rightarrow> 'w \<Rightarrow> (thrown + string) \<times> 'w"
  fs_mkdir :: "string \<Rightarrow> 'w \<Rightarrow> (thrown + unit) \<times> 'w"
  fs_writeFile :: "string \<Rightarrow> string \<Rightarrow> 'w \<Rightarrow> (thrown + unit) \<times> 'w"
  fs_readFile :: "string \<Rightarrow> 'w \<Rightarrow> (thrown + string) \<times> 'w"
  transport_close :: "'w \<Rightarrow> (thrown + unit) \<times> 'w"

type_synonym 'w state = "'w \<times> event list"

text \<open>One call to the outside: run the operation on the world and record the event.\<close>

definition perform ::
  "event \<Rightarrow> ('w \<Rightarrow> (thrown + 'a) \<times> 'w) \<Rightarrow> 'w state \<Rightarrow> (thrown + 'a) \<times> 'w state" where
  "perform ev f s = (case f (fst s) of (r, w) \<Rightarrow> (r, (w, snd s @ [ev])))"

definition client_connect ::
  "'w env \<Rightarrow> string \<Rightarrow> string list \<Rightarrow> 'w state \<Rightarrow> (thrown + unit) \<times> 'w state" where
  "client_connect E command arguments =
     perform (EvConnect command arguments) (peer_connect E command arguments)"

definition client_listTools :: "'w env \<Rightarrow> 'w state \<Rightarrow> (thrown + json list option) \<times> 'w state" where
  "client_listTools E = perform EvListTools (peer_listTools E)"

definition client_listResources :: "'w env \<Rightarrow> 'w state \<Rightarrow> (thrown + json list option) \<times> 'w state" where
  "client_listResources E = perform EvListResources (peer_listResources E)"

definition client_listPrompts :: "'w env \<Rightarrow> 'w state \<Rightarrow> (thrown + json list option) \<times> 'w state" where
  "client_listPrompts E = perform EvListPrompts (peer_listPrompts E)"

definition client_callTool ::
  "'w env \<Rightarrow> json option \<Rightarrow> json option \<Rightarrow> 'w state \<Rightarrow> (thrown + CallToolResult) \<times> 'w state" where
  "client_callTool E nm arguments = perform (EvCallTool nm arguments) (peer_callTool E nm arguments)"

definition client_close :: "'w env \<Rightarrow> 'w state \<Rightarrow> (thrown + unit) \<times> 'w state" where
  "client_close E = perform EvClientClose (peer_close E)"

definition generateText :: "'w env \<Rightarrow> string \<Rightarrow> 'w state \<Rightarrow> (thrown + string) \<times> 'w state" where
  "generateText E prompt = perform (EvGenerateText prompt) (llm_generateText E prompt)"

definition mkdir :: "'w env \<Rightarrow> string \<Rightarrow> 'w state \<Rightarrow> (thrown + unit) \<times> 'w state" where
  "mkdir E dir = perform (EvMkdir dir) (fs_mkdir E dir)"

definition writeFile ::
  "'w env \<Rightarrow> string \<Rightarrow> string \<Rightarrow> 'w state \<Rightarrow> (thrown + unit) \<times> 'w state" where
  "writeFile E file txt = perform (EvWriteFile file txt) (fs_writeFile E file txt)"

definition readFile :: "'w env \<Rightarrow> string \<Rightarrow> 'w state \<Rightarrow> (thrown + string) \<times> 'w state" where
  "readFile E file = perform (EvReadFile file) (fs_readFile E file)"

definition server_close :: "'w env \<Rightarrow> 'w state \<Rightarrow> (thrown + unit) \<times> 'w state" where
  "server_close E = perform EvServerClose (transport_close E)"

text \<open>\<^verbatim>\<open>xs || []\<close> and \<^verbatim>\<open>xs?.length || 0\<close> on a list that may be \<^verbatim>\<open>undefined\<close>.\<close>

fun or_empty :: "'a list option \<Rightarrow> 'a list" where
  "or_empty None = []"
| "or_empty (Some xs) = xs"

definition length_or_0 :: "'a list option \<Rightarrow> nat" where
  "length_or_0 xs = (case xs of None \<Rightarrow> 0 | Some ys \<Rightarrow> length ys)"

text \<open>
  A property of an object literal as \<^verbatim>\<open>JSON.stringify\<close> and a later read see it:
  one whose value is \<^verbatim>\<open>undefined\<close> is absent.
\<close>

fun opt_field :: "string \<Rightarrow> json option \<Rightarrow> (string \<times> json) list" where
  "opt_field k None = []"
| "opt_field k (Some v) = [(k, v)]"

definition unlines :: "string list \<Rightarrow> string" where
  "unlines ls = intercalate [CHR 0x0A] ls"

definition dq :: "string \<Rightarrow> string" where
  "dq s = [CHR 0x22] @ s @ [CHR 0x22]"

text \<open>\<^verbatim>\<open>validateEnvironment\<close>, the same in both engines.\<close>

definition validateEnvironment :: "'w env \<Rightarrow> thrown + unit" where
  "validateEnvironment E =
     (case OPENAI_API_KEY E of
        None \<Rightarrow> Inl (Error ''OPENAI_API_KEY environment variable is required'')
      | Some k \<Rightarrow>
          if k = [] then Inl (Error ''OPENAI_API_KEY environment variable is required'')
          else Inr ())"

section \<open>The analyzer (analyzer.ts)\<close>

definition connectToServer ::
  "'w env \<Rightarrow> string \<Rightarrow> string list \<Rightarrow> 'w state \<Rightarrow> (thrown + unit) \<times> 'w state" where
  "connectToServer E serverPath' args' s =
     (case client_connect E serverPath' args' s of
        (Inl e, s1) \<Rightarrow> (Inl (Error (''Failed to connect to MCP server: '' @ message_of e)), s1)
      | (Inr u, s1) \<Rightarrow> (Inr (), s1))"

definition discoverCapabilities ::
  "'w env \<Rightarrow> 'w state \<Rightarrow> (thrown + ServerCapabilities) \<times> 'w state" where
  "discoverCapabilities E s =
     (case client_listTools E s of
        (Inl e, s1) \<Rightarrow> (Inl e, s1)
      | (Inr toolsResponse, s1) \<Rightarrow>
          (case client_listResources E s1 of
             (rr, s2) \<Rightarrow>
               (let resourcesResponse = (case rr of Inl e \<Rightarrow> Some [] | Inr r \<Rightarrow> r)
                in case client_listPrompts E s2 of
                     (pr, s3) \<Rightarrow>
                       (let promptsResponse = (case pr of Inl e \<Rightarrow> Some [] | Inr r \<Rightarrow> r)
                        in (Inr \<lparr> tools = or_empty toolsResponse,
                                   resources = or_empty resourcesResponse,
                                   prompts = or_empty promptsResponse \<rparr>, s3)))))"

definition analysisPrompt :: "'w env \<Rightarrow> ServerCapabilities \<Rightarrow> string" where
  "analysisPrompt E caps = unlines [
     [],
     ''You are analyzing an MCP (Model Context Protocol) server'' @ [CHR 0x27] @
       ''s capabilities to generate an expert tool configuration.'',
     [],
     ''The server provides the following capabilities:'',
     [],
     ''TOOLS ('' @ string_of_nat (length (tools caps)) @ ''):'',
     JSON_stringify E (JArr (tools caps)),
     [],
     ''RESOURCES ('' @ string_of_nat (length (resources caps)) @ ''):'',
     JSON_stringify E (JArr (resources caps)),
     [],
     ''PROMPTS ('' @ string_of_nat (length (prompts caps)) @ ''):'',
     JSON_stringify E (JArr (prompts caps)),
     [],
     ''Based on these capabilities, generate a JSON configuration with the following structure:'',
     ''{'',
     ''  '' @ dq ''expertName'' @ '': '' @
       dq (''A concise, descriptive name for this expert (e.g., '' @ quoted ''File System Expert'' @
           '', '' @ quoted ''Database Manager'' @ '')'') @ '','',
     ''  '' @ dq ''expertDescription'' @ '': '' @
       dq ''A clear description of what this MCP server does and its primary capabilities'' @ '','',
     ''  '' @ dq ''systemPrompt'' @ '': '' @
       dq (''A system prompt for an LLM to understand how to coordinate with this MCP server. '' @
           ''Include key capabilities and usage guidance.'') @ '','',
     ''  '' @ dq ''capabilities'' @ '': {'',
     ''    '' @ dq ''tools'' @ '': ['' @ dq ''list'' @ '', '' @ dq ''of'' @ '', '' @ dq ''tool'' @
       '', '' @ dq ''names'' @ ''],'',
     ''    '' @ dq ''resources'' @ '': ['' @ dq ''list'' @ '', '' @ dq ''of'' @ '', '' @
       dq ''resource'' @ '', '' @ dq ''uris'' @ ''],'',
     ''    '' @ dq ''prompts'' @ '': ['' @ dq ''list'' @ '', '' @ dq ''of'' @ '', '' @ dq ''prompt'' @
       '', '' @ dq ''names'' @ '']'',
     ''  }'',
     ''}'',
     [],
     ''Generate ONLY valid JSON without any markdown formatting or additional text.'']"

text \<open>
  The result is cast to \<^verbatim>\<open>LLMAnalysis\<close> without a check, so it is whatever value
  the planner's text parses to.
\<close>

definition analyzeWithLLM ::
  "'w env \<Rightarrow> ServerCapabilities \<Rightarrow> 'w state \<Rightarrow> (thrown + json) \<times> 'w state" where
  "analyzeWithLLM E caps s =
     (case generateText E (analysisPrompt E caps) s of
        (Inl e, s1) \<Rightarrow>
          (Inl (Error (''Failed to analyze server capabilities: '' @ message_of e)), s1)
      | (Inr txt, s1) \<Rightarrow>
          (case JSON_parse E txt of
             Inl e \<Rightarrow> (Inl (Error (''Failed to analyze server capabilities: '' @ message_of e)), s1)
           | Inr analysis \<Rightarrow> (Inr analysis, s1)))"

text \<open>\<^verbatim>\<open>v.toLowerCase()\<close> on a value that should be a string.\<close>

fun call_toLowerCase :: "json option \<Rightarrow> thrown + string" where
  "call_toLowerCase None =
     Inl (Error (''Cannot read properties of undefined (reading '' @ quoted ''toLowerCase'' @ '')''))"
| "call_toLowerCase (Some JNull) =
     Inl (Error (''Cannot read properties of null (reading '' @ quoted ''toLowerCase'' @ '')''))"
| "call_toLowerCase (Some (JStr s)) = Inr (toLowerCase s)"
| "call_toLowerCase (Some v) = Inl (Error ''config.name.toLowerCase is not a function'')"

definition saveConfiguration :: "'w env \<Rightarrow> json \<Rightarrow> 'w state \<Rightarrow> (thrown + string) \<times> 'w state" where
  "saveConfiguration E config s =
     (let configDir = path_join E (process_cwd E) ''configs''
      in case mkdir E configDir s of
           (Inl e, s1) \<Rightarrow> (Inl e, s1)
         | (Inr u, s1) \<Rightarrow>
             (case get_prop (Some config) ''name'' of
                Inl e \<Rightarrow> (Inl e, s1)
              | Inr nm \<Rightarrow>
                  (case call_toLowerCase nm of
                     Inl e \<Rightarrow> (Inl e, s1)
                   | Inr lower \<Rightarrow>
                       (let configFileName =
                              replace_whitespace_runs lower @ ''-'' @
                              string_of_nat (Date_now E (fst s1)) @ ''.json'';
                            configPath = path_join E configDir configFileName
                        in case writeFile E configPath (JSON_stringify E config) s1 of
                             (Inl e, s2) \<Rightarrow> (Inl e, s2)
                           | (Inr u, s2) \<Rightarrow> (Inr configPath, s2)))))"

definition ServerCapabilities_object :: "ServerCapabilities \<Rightarrow> json" where
  "ServerCapabilities_object caps =
     JObj [(''tools'', JArr (tools caps)),
           (''resources'', JArr (resources caps)),
           (''prompts'', JArr (prompts caps))]"

text \<open>The object literal that \<^verbatim>\<open>analyzeServer\<close> hands to \<^verbatim>\<open>saveConfiguration\<close>.\<close>

definition ServerConfig_object ::
  "json option \<Rightarrow> json option \<Rightarrow> string \<Rightarrow> string list \<Rightarrow> json option \<Rightarrow> ServerCapabilities \<Rightarrow>
   string \<Rightarrow> json" where
  "ServerConfig_object expertName expertDescription serverPath' args' prompt caps now =
     JObj (opt_field ''name'' expertName @
           opt_field ''description'' expertDescription @
           [(''serverPath'', JStr serverPath'),
            (''args'', JArr (map JStr args'))] @
           opt_field ''systemPrompt'' prompt @
           [(''capabilities'', ServerCapabilities_object caps),
            (''metadata'',
               JObj [(''analyzedAt'', JStr now),
                     (''toolCount'', JNum (int (length (tools caps)))),
                     (''resourceCount'', JNum (int (length (resources caps)))),
                     (''promptCount'', JNum (int (length (prompts caps))))])])"

text \<open>\<^verbatim>\<open>AnalysisResult\<close>; the fields carry a prefix to keep them apart from the descriptor's.\<close>

record AnalysisResult =
  ar_expertName :: "json option"
  ar_expertDescription :: "json option"
  ar_systemPrompt :: "json option"
  ar_capabilities :: ServerCapabilities
  ar_configPath :: string

text \<open>The body of the \<^verbatim>\<open>try\<close> block of \<^verbatim>\<open>analyzeServer\<close>, after the connection.\<close>

definition analyze_connected ::
  "'w env \<Rightarrow> string \<Rightarrow> string list \<Rightarrow> 'w state \<Rightarrow> (thrown + AnalysisResult) \<times> 'w state" where
  "analyze_connected E serverPath' args' s =
     (case discoverCapabilities E s of
        (Inl e, s1) \<Rightarrow> (Inl e, s1)
      | (Inr caps, s1) \<Rightarrow>
          (case analyzeWithLLM E caps s1 of
             (Inl e, s2) \<Rightarrow> (Inl e, s2)
           | (Inr analysis, s2) \<Rightarrow>
               (case get_prop (Some analysis) ''expertName'' of
                  Inl e \<Rightarrow> (Inl e, s2)
                | Inr expertName \<Rightarrow>
               (case get_prop (Some analysis) ''expertDescription'' of
                  Inl e \<Rightarrow> (Inl e, s2)
                | Inr expertDescription \<Rightarrow>
               (case get_prop (Some analysis) ''systemPrompt'' of
                  Inl e \<Rightarrow> (Inl e, s2)
                | Inr prompt \<Rightarrow>
                    (case saveConfiguration E
                            (ServerConfig_object expertName expertDescription serverPath' args'
                               prompt caps (Date_toISOString E (fst s2))) s2 of
                       (Inl e, s3) \<Rightarrow> (Inl e, s3)
                     | (Inr configPath, s3) \<Rightarrow>
                         (Inr \<lparr> ar_expertName = expertName,
                                 ar_expertDescription = expertDescription,
                                 ar_systemPrompt = prompt,
                                 ar_capabilities = caps,
                                 ar_configPath = configPath \<rparr>, s3)))))))"

text \<open>
  \<^verbatim>\<open>analyzeServer\<close>. The variable \<^verbatim>\<open>client\<close> is set once the connection is open, so
  the \<^verbatim>\<open>finally\<close> block closes the client exactly when the connection succeeded; an
  error thrown by the close itself replaces the outcome of the block.
\<close>

definition analyzeServer ::
  "'w env \<Rightarrow> string \<Rightarrow> string list \<Rightarrow> 'w state \<Rightarrow> (thrown + AnalysisResult) \<times> 'w state" where
  "analyzeServer E serverPath' args' s =
     (case validateEnvironment E of
        Inl e \<Rightarrow> (Inl e, s)
      | Inr u \<Rightarrow>
          (case connectToServer E serverPath' args' s of
             (Inl e, s1) \<Rightarrow> (Inl e, s1)
           | (Inr u, s1) \<Rightarrow>
               (case analyze_connected E serverPath' args' s1 of
                  (r, s2) \<Rightarrow>
                    (case client_close E s2 of
                       (Inl e, s3) \<Rightarrow> (Inl e, s3)
                     | (Inr u, s3) \<Rightarrow> (r, s3)))))"

section \<open>The schemas (types.ts)\<close>

text \<open>
  The zod combinators the two schemas use. A parse gives the typed value or the list of
  all issues found; an object schema reads its own keys and drops any other.
\<close>

fun z_string :: "path_elem list \<Rightarrow> json option \<Rightarrow> issue list + string" where
  "z_string p (Some (JStr s)) = Inr s"
| "z_string p v = Inl [(p, ''string'')]"

fun z_number :: "path_elem list \<Rightarrow> json option \<Rightarrow> issue list + int" where
  "z_number p (Some (JNum n)) = Inr n"
| "z_number p v = Inl [(p, ''number'')]"

text \<open>\<^verbatim>\<open>z.array(z.any())\<close>\<close>

fun z_array_any :: "path_elem list \<Rightarrow> json option \<Rightarrow> issue list + json list" where
  "z_array_any p (Some (JArr xs)) = Inr xs"
| "z_array_any p v = Inl [(p, ''array'')]"

fun element_issues :: "path_elem list \<Rightarrow> nat \<Rightarrow> json list \<Rightarrow> issue list" where
  "element_issues p i [] = []"
| "element_issues p i (JStr s # xs) = element_issues p (Suc i) xs"
| "element_issues p i (x # xs) = (p @ [Index i], ''string'') # element_issues p (Suc i) xs"

fun strings_of :: "json list \<Rightarrow> string list" where
  "strings_of [] = []"
| "strings_of (JStr s # xs) = s # strings_of xs"
| "strings_of (x # xs) = strings_of xs"

text \<open>\<^verbatim>\<open>z.array(z.string())\<close>\<close>

fun z_array_string :: "path_elem list \<Rightarrow> json option \<Rightarrow> issue list + string list" where
  "z_array_string p (Some (JArr xs)) =
     (if element_issues p 0 xs = [] then Inr (strings_of xs) else Inl (element_issues p 0 xs))"
| "z_array_string p v = Inl [(p, ''array'')]"

text \<open>\<^verbatim>\<open>z.enum(['discover', 'execute', 'explain']).optional()\<close>\<close>

fun z_mode :: "path_elem list \<Rightarrow> json option \<Rightarrow> issue list + string option" where
  "z_mode p None = Inr None"
| "z_mode p (Some (JStr m)) =
     (if m \<in> set [''discover'', ''execute'', ''explain''] then Inr (Some m)
      else Inl [(p, ''discover | execute | explain'')])"
| "z_mode p (Some v) = Inl [(p, ''discover | execute | explain'')]"

text \<open>Two fields of one object: the issues of both are reported.\<close>

definition z_both :: "issue list + 'a \<Rightarrow> issue list + 'b \<Rightarrow> issue list + ('a \<times> 'b)" where
  "z_both a b =
     (case a of
        Inl ia \<Rightarrow> (case b of Inl ib \<Rightarrow> Inl (ia @ ib) | Inr y \<Rightarrow> Inl ia)
      | Inr x \<Rightarrow> (case b of Inl ib \<Rightarrow> Inl ib | Inr y \<Rightarrow> Inr (x, y)))"

definition capabilities_schema_parse ::
  "path_elem list \<Rightarrow> json option \<Rightarrow> issue list + ServerCapabilities" where
  "capabilities_schema_parse p v =
     (case v of
        Some (JObj kvs) \<Rightarrow>
          (case z_both (z_array_any (p @ [Key ''tools'']) (map_of kvs ''tools''))
                 (z_both (z_array_any (p @ [Key ''resources'']) (map_of kvs ''resources''))
                         (z_array_any (p @ [Key ''prompts'']) (map_of kvs ''prompts''))) of
             Inl issues \<Rightarrow> Inl issues
           | Inr (ts, rs, ps) \<Rightarrow> Inr \<lparr> tools = ts, resources = rs, prompts = ps \<rparr>)
      | _ \<Rightarrow> Inl [(p, ''object'')])"

definition metadata_schema_parse :: "path_elem list \<Rightarrow> json option \<Rightarrow> issue list + Metadata" where
  "metadata_schema_parse p v =
     (case v of
        Some (JObj kvs) \<Rightarrow>
          (case z_both (z_string (p @ [Key ''analyzedAt'']) (map_of kvs ''analyzedAt''))
                 (z_both (z_number (p @ [Key ''toolCount'']) (map_of kvs ''toolCount''))
                 (z_both (z_number (p @ [Key ''resourceCount'']) (map_of kvs ''resourceCount''))
                         (z_number (p @ [Key ''promptCount'']) (map_of kvs ''promptCount'')))) of
             Inl issues \<Rightarrow> Inl issues
           | Inr (a, t, r, q) \<Rightarrow>
               Inr \<lparr> analyzedAt = a, toolCount = t, resourceCount = r, promptCount = q \<rparr>)
      | _ \<Rightarrow> Inl [(p, ''object'')])"

text \<open>\<^verbatim>\<open>WrapperConfigSchema.parse\<close>\<close>

definition WrapperConfigSchema_parse :: "json \<Rightarrow> issue list + WrapperConfig" where
  "WrapperConfigSchema_parse v =
     (case v of
        JObj kvs \<Rightarrow>
          (case z_both (z_string [Key ''name''] (map_of kvs ''name''))
                 (z_both (z_string [Key ''description''] (map_of kvs ''description''))
                 (z_both (z_string [Key ''serverPath''] (map_of kvs ''serverPath''))
                 (z_both (z_array_string [Key ''args''] (map_of kvs ''args''))
                 (z_both (z_string [Key ''systemPrompt''] (map_of kvs ''systemPrompt''))
                 (z_both (capabilities_schema_parse [Key ''capabilities''] (map_of kvs ''capabilities''))
                         (metadata_schema_parse [Key ''metadata''] (map_of kvs ''metadata''))))))) of
             Inl issues \<Rightarrow> Inl issues
           | Inr (n, d, sp, a, pr, c, m) \<Rightarrow>
               Inr \<lparr> name = n, description = d, serverPath = sp, args = a, systemPrompt = pr,
                     capabilities = c, metadata = m \<rparr>)
      | _ \<Rightarrow> Inl [([], ''object'')])"

text \<open>\<^verbatim>\<open>ExpertToolInput\<close>; the fields carry a prefix to keep them apart from parameters.\<close>

record ExpertToolInput =
  arg_query :: string
  arg_mode :: "string option"

text \<open>\<^verbatim>\<open>ExpertToolSchema.parse\<close>\<close>

definition ExpertToolSchema_parse :: "json option \<Rightarrow> issue list + ExpertToolInput" where
  "ExpertToolSchema_parse v =
     (case v of
        Some (JObj kvs) \<Rightarrow>
          (case z_both (z_string [Key ''query''] (map_of kvs ''query''))
                       (z_mode [Key ''mode''] (map_of kvs ''mode'')) of
             Inl issues \<Rightarrow> Inl issues
           | Inr (q, m) \<Rightarrow> Inr \<lparr> arg_query = q, arg_mode = m \<rparr>)
      | _ \<Rightarrow> Inl [([], ''object'')])"

section \<open>The wrapper (wrapper.ts): loading, queries, shutdown\<close>

text \<open>The \<^verbatim>\<open>catch\<close> of \<^verbatim>\<open>loadConfig\<close>: an Error is wrapped, any other value rethrown.\<close>

fun load_failure :: "thrown \<Rightarrow> thrown" where
  "load_failure (Error m) = Error (''Failed to load configuration: '' @ m)"
| "load_failure (NonError v) = NonError v"

definition loadConfig :: "'w env \<Rightarrow> string \<Rightarrow> 'w state \<Rightarrow> (thrown + WrapperConfig) \<times> 'w state" where
  "loadConfig E configPath s =
     (case readFile E configPath s of
        (Inl e, s1) \<Rightarrow> (Inl (load_failure e), s1)
      | (Inr configData, s1) \<Rightarrow>
          (case JSON_parse E configData of
             Inl e \<Rightarrow> (Inl (load_failure e), s1)
           | Inr config \<Rightarrow>
               (case WrapperConfigSchema_parse config of
                  Inl issues \<Rightarrow> (Inl (load_failure (Error (ZodError_message E issues))), s1)
                | Inr c \<Rightarrow> (Inr c, s1))))"

definition connectToWrappedServer :: "'w env \<Rightarrow> WrapperConfig \<Rightarrow> 'w state \<Rightarrow> (thrown + unit) \<times> 'w state" where
  "connectToWrappedServer E config s =
     (case client_connect E (serverPath config) (args config) s of
        (Inl e, s1) \<Rightarrow> (Inl (Error (''Failed to connect to wrapped server: '' @ message_of e)), s1)
      | (Inr u, s1) \<Rightarrow> (Inr (), s1))"

datatype InvocationResult =
    ToolResult (tool: "json option") "json option"
  | ToolError (tool: "json option") string

datatype QueryResult =
    DiscoverResult string "json list" "json list" "json list"
  | ExplainResult string string string string
  | ExecuteResult "json option" "InvocationResult list"

text \<open>
  Discover mode. \<^verbatim>\<open>Promise.all\<close> receives three requests that have all been issued;
  over the ordered channel the first rejection is that of the earliest request.
\<close>

definition handle_discover :: "'w env \<Rightarrow> WrapperConfig \<Rightarrow> 'w state \<Rightarrow> (thrown + QueryResult) \<times> 'w state" where
  "handle_discover E config s =
     (case client_listTools E s of
        (r1, s1) \<Rightarrow>
          (case client_listResources E s1 of
             (r2, s2) \<Rightarrow>
               (case client_listPrompts E s2 of
                  (r3, s3) \<Rightarrow>
                    (case r1 of
                       Inl e \<Rightarrow> (Inl e, s3)
                     | Inr toolsResponse \<Rightarrow>
                    (case r2 of
                       Inl e \<Rightarrow> (Inl e, s3)
                     | Inr resourcesResponse \<Rightarrow>
                    (case r3 of
                       Inl e \<Rightarrow> (Inl e, s3)
                     | Inr promptsResponse \<Rightarrow>
                         (Inr (DiscoverResult
                                 (name config @ '' provides '' @
                                  string_of_nat (length_or_0 toolsResponse) @ '' tools, '' @
                                  string_of_nat (length_or_0 resourcesResponse) @ '' resources, and '' @
                                  string_of_nat (length_or_0 promptsResponse) @ '' prompts'')
                                 (or_empty toolsResponse)
                                 (or_empty resourcesResponse)
                                 (or_empty promptsResponse)), s3)))))))"

text \<open>\<^verbatim>\<open>ts.map(t => t.name)\<close>\<close>

fun map_name :: "json list \<Rightarrow> thrown + json option list" where
  "map_name [] = Inr []"
| "map_name (t # ts) =
     (case get_prop (Some t) ''name'' of
        Inl e \<Rightarrow> Inl e
      | Inr n \<Rightarrow> (case map_name ts of Inl e \<Rightarrow> Inl e | Inr ns \<Rightarrow> Inr (n # ns)))"

text \<open>\<^verbatim>\<open>tools.tools?.map(t => t.name).join(', ') || 'none'\<close>\<close>

definition toolNames_of :: "json list option \<Rightarrow> thrown + string" where
  "toolNames_of toolsResponse =
     (case toolsResponse of
        None \<Rightarrow> Inr ''none''
      | Some ts \<Rightarrow>
          (case map_name ts of
             Inl e \<Rightarrow> Inl e
           | Inr ns \<Rightarrow>
               (let joined = intercalate '', '' (map join_element ns)
                in Inr (if joined = [] then ''none'' else joined))))"

definition usage_hint :: string where
  "usage_hint =
     ''Ask me to perform tasks and I'' @ [CHR 0x27] @
     ''ll use the appropriate tools from the wrapped server.''"

definition handle_explain :: "'w env \<Rightarrow> WrapperConfig \<Rightarrow> 'w state \<Rightarrow> (thrown + QueryResult) \<times> 'w state" where
  "handle_explain E config s =
     (case client_listTools E s of
        (Inl e, s1) \<Rightarrow> (Inl e, s1)
      | (Inr toolsResponse, s1) \<Rightarrow>
          (case toolNames_of toolsResponse of
             Inl e \<Rightarrow> (Inl e, s1)
           | Inr toolNames \<Rightarrow>
               (Inr (ExplainResult (description config) (systemPrompt config) toolNames usage_hint),
                s1)))"

definition coordinationPrompt :: "'w env \<Rightarrow> WrapperConfig \<Rightarrow> json list \<Rightarrow> string \<Rightarrow> string" where
  "coordinationPrompt E config ts query = unlines [
     [],
     systemPrompt config,
     [],
     ''Available tools:'',
     JSON_stringify E (JArr ts),
     [],
     ''User query: '' @ query,
     [],
     ''Based on the user'' @ [CHR 0x27] @
       ''s query and available tools, determine which tool(s) to use and with what arguments.'',
     ''Respond with a JSON object in this format:'',
     ''{'',
     ''  '' @ dq ''toolCalls'' @ '': ['',
     ''    {'',
     ''      '' @ dq ''name'' @ '': '' @ dq ''tool_name'' @ '','',
     ''      '' @ dq ''arguments'' @ '': { ... }'',
     ''    }'',
     ''  ],'',
     ''  '' @ dq ''explanation'' @ '': '' @
       dq (''Brief explanation of what you'' @ [CHR 0x27] @ ''re doing''),
     ''}'',
     [],
     ''Respond ONLY with valid JSON.'']"

text \<open>
  One turn of the loop over the planned calls. The inner \<^verbatim>\<open>try\<close> block reads the
  call's name and arguments and invokes the tool.
\<close>

definition attempt_toolCall ::
  "'w env \<Rightarrow> json \<Rightarrow> 'w state \<Rightarrow> (thrown + InvocationResult) \<times> 'w state" where
  "attempt_toolCall E toolCall s =
     (case get_prop (Some toolCall) ''name'' of
        Inl e \<Rightarrow> (Inl e, s)
      | Inr nm \<Rightarrow>
          (case get_prop (Some toolCall) ''arguments'' of
             Inl e \<Rightarrow> (Inl e, s)
           | Inr arguments \<Rightarrow>
               (case client_callTool E nm arguments s of
                  (Inl e, s1) \<Rightarrow> (Inl e, s1)
                | (Inr res, s1) \<Rightarrow> (Inr (ToolResult nm (content res)), s1))))"

text \<open>
  The inner \<^verbatim>\<open>catch\<close> records the failure under the call's name; reading that name
  can throw again, and then the error leaves the loop.
\<close>

definition run_toolCall ::
  "'w env \<Rightarrow> json \<Rightarrow> 'w state \<Rightarrow> (thrown + InvocationResult) \<times> 'w state" where
  "run_toolCall E toolCall s =
     (case attempt_toolCall E toolCall s of
        (Inr entry, s1) \<Rightarrow> (Inr entry, s1)
      | (Inl err, s1) \<Rightarrow>
          (case get_prop (Some toolCall) ''name'' of
             Inl e \<Rightarrow> (Inl e, s1)
           | Inr nm \<Rightarrow> (Inr (ToolError nm (message_of err)), s1)))"

fun run_toolCalls ::
  "'w env \<Rightarrow> json list \<Rightarrow> InvocationResult list \<Rightarrow> 'w state \<Rightarrow>
   (thrown + InvocationResult list) \<times> 'w state" where
  "run_toolCalls E [] results s = (Inr results, s)"
| "run_toolCalls E (toolCall # rest) results s =
     (case run_toolCall E toolCall s of
        (Inl e, s1) \<Rightarrow> (Inl e, s1)
      | (Inr entry, s1) \<Rightarrow> run_toolCalls E rest (results @ [entry]) s1)"

text \<open>
  \<^verbatim>\<open>for (const x of v)\<close>: an array yields its elements, a string its characters,
  anything else is not iterable and the engine throws a TypeError.
\<close>

fun iterate :: "'w env \<Rightarrow> json \<Rightarrow> thrown + json list" where
  "iterate E (JArr xs) = Inr xs"
| "iterate E (JStr s) = Inr (map (\<lambda>c. JStr [c]) s)"
| "iterate E v = Inl (Error (not_iterable_message E v))"

text \<open>\<^verbatim>\<open>plan.toolCalls || []\<close>\<close>

definition or_empty_array :: "json option \<Rightarrow> json" where
  "or_empty_array v = (case v of None \<Rightarrow> JArr [] | Some x \<Rightarrow> if truthy (Some x) then x else JArr [])"

text \<open>The outer \<^verbatim>\<open>try\<close> block of execute mode.\<close>

definition coordinate :: "'w env \<Rightarrow> string \<Rightarrow> 'w state \<Rightarrow> (thrown + QueryResult) \<times> 'w state" where
  "coordinate E prompt s =
     (case generateText E prompt s of
        (Inl e, s1) \<Rightarrow> (Inl e, s1)
      | (Inr txt, s1) \<Rightarrow>
          (case JSON_parse E txt of
             Inl e \<Rightarrow> (Inl e, s1)
           | Inr plan \<Rightarrow>
               (case get_prop (Some plan) ''toolCalls'' of
                  Inl e \<Rightarrow> (Inl e, s1)
                | Inr toolCalls \<Rightarrow>
                    (case iterate E (or_empty_array toolCalls) of
                       Inl e \<Rightarrow> (Inl e, s1)
                     | Inr calls \<Rightarrow>
                         (case run_toolCalls E calls [] s1 of
                            (Inl e, s2) \<Rightarrow> (Inl e, s2)
                          | (Inr results, s2) \<Rightarrow>
                              (case get_prop (Some plan) ''explanation'' of
                                 Inl e \<Rightarrow> (Inl e, s2)
                               | Inr explanation \<Rightarrow>
                                   (Inr (ExecuteResult explanation results), s2)))))))"

definition handle_execute ::
  "'w env \<Rightarrow> string \<Rightarrow> WrapperConfig \<Rightarrow> 'w state \<Rightarrow> (thrown + QueryResult) \<times> 'w state" where
  "handle_execute E query config s =
     (case client_listTools E s of
        (Inl e, s1) \<Rightarrow> (Inl e, s1)
      | (Inr toolsResponse, s1) \<Rightarrow>
          (case coordinate E (coordinationPrompt E config (or_empty toolsResponse) query) s1 of
             (Inl e, s2) \<Rightarrow>
               (Inl (Error (''Failed to coordinate with wrapped server: '' @ message_of e)), s2)
           | (Inr r, s2) \<Rightarrow> (Inr r, s2)))"

definition handleExpertQuery ::
  "'w env \<Rightarrow> string \<Rightarrow> string option \<Rightarrow> WrapperConfig \<Rightarrow> 'w state \<Rightarrow>
   (thrown + QueryResult) \<times> 'w state" where
  "handleExpertQuery E query mode config s =
     (let effectiveMode = (case mode of None \<Rightarrow> ''execute'' | Some m \<Rightarrow> if m = [] then ''execute'' else m)
      in if effectiveMode = ''discover'' then handle_discover E config s
         else if effectiveMode = ''explain'' then handle_explain E config s
         else handle_execute E query config s)"

text \<open>The objects as \<^verbatim>\<open>JSON.stringify\<close> sees them.\<close>

fun InvocationResult_object :: "InvocationResult \<Rightarrow> json" where
  "InvocationResult_object (ToolResult t r) = JObj (opt_field ''tool'' t @ opt_field ''result'' r)"
| "InvocationResult_object (ToolError t m) = JObj (opt_field ''tool'' t @ [(''error'', JStr m)])"

fun QueryResult_object :: "QueryResult \<Rightarrow> json" where
  "QueryResult_object (DiscoverResult summary ts rs ps) =
     JObj [(''summary'', JStr summary), (''tools'', JArr ts), (''resources'', JArr rs),
           (''prompts'', JArr ps)]"
| "QueryResult_object (ExplainResult d sp availableTools usage) =
     JObj [(''description'', JStr d), (''systemPrompt'', JStr sp),
           (''availableTools'', JStr availableTools), (''usage'', JStr usage)]"
| "QueryResult_object (ExecuteResult explanation results) =
     JObj (opt_field ''explanation'' explanation @
           [(''results'', JArr (map InvocationResult_object results))])"

text \<open>
  The two request handlers that \<^verbatim>\<open>startWrapperServer\<close> registers, over the loaded
  \<open>config\<close> and the \<open>expertTool\<close> made from it.
\<close>

definition ListToolsRequest_handler :: "ToolDefinition \<Rightarrow> ToolDefinition list" where
  "ListToolsRequest_handler expertTool = [expertTool]"

record CallToolRequest =
  params_name :: string
  params_arguments :: "json option"

definition CallToolRequest_handler ::
  "'w env \<Rightarrow> WrapperConfig \<Rightarrow> ToolDefinition \<Rightarrow> CallToolRequest \<Rightarrow> 'w state \<Rightarrow>
   (thrown + json) \<times> 'w state" where
  "CallToolRequest_handler E config expertTool request s =
     (if params_name request \<noteq> td_name expertTool
      then (Inl (Error (''Unknown tool: '' @ params_name request)), s)
      else case ExpertToolSchema_parse (params_arguments request) of
             Inl issues \<Rightarrow> (Inl (Error (ZodError_message E issues)), s)
           | Inr a \<Rightarrow>
               (case handleExpertQuery E (arg_query a) (arg_mode a) config s of
                  (Inl e, s1) \<Rightarrow> (Inl e, s1)
                | (Inr r, s1) \<Rightarrow>
                    (Inr (JObj [(''content'',
                            JArr [JObj [(''type'', JStr ''text''),
                                        (''text'', JStr (JSON_stringify E (QueryResult_object r)))]])]),
                     s1)))"

text \<open>
  The \<^verbatim>\<open>SIGINT\<close> handler: three statements in a row, none of them guarded. It ends
  by leaving the process, or with the rejection of the close that threw.
\<close>

datatype shutdown_outcome = Exited int | Rejected thrown

definition on_SIGINT :: "'w env \<Rightarrow> 'w state \<Rightarrow> shutdown_outcome \<times> 'w state" where
  "on_SIGINT E s =
     (case client_close E s of
        (Inl e, s1) \<Rightarrow> (Rejected e, s1)
      | (Inr u, s1) \<Rightarrow>
          (case server_close E s1 of
             (Inl e, s2) \<Rightarrow> (Rejected e, s2)
           | (Inr u, s2) \<Rightarrow> (Exited 0, (fst s2, snd s2 @ [EvExit 0]))))"

section \<open>Specification-side notions\<close>

fun spaced_words :: "string \<Rightarrow> (string \<times> string) list \<Rightarrow> string" where
  "spaced_words w [] = w"
| "spaced_words w ((gap, w') # rest) = w @ gap @ spaced_words w' rest"

fun hyphenated_words :: "string \<Rightarrow> (string \<times> string) list \<Rightarrow> string" where
  "hyphenated_words w [] = toLowerCase w"
| "hyphenated_words w ((gap, w') # rest) = toLowerCase w @ ''-'' @ hyphenated_words w' rest"

definition is_word :: "string \<Rightarrow> bool" where
  "is_word w = (w \<noteq> [] \<and> list_all (\<lambda>c. \<not> is_whitespace c) w)"

definition is_gap :: "string \<Rightarrow> bool" where
  "is_gap g = (g \<noteq> [] \<and> list_all is_whitespace g)"

text \<open>Whitespace before the first word or after the last: one hyphen if there is any.\<close>

definition is_blank :: "string \<Rightarrow> bool" where
  "is_blank g = list_all is_whitespace g"

definition edge_hyphen :: "string \<Rightarrow> string" where
  "edge_hyphen g = (if g = [] then [] else ''-'')"

text \<open>What the specification says of a planned call and of running a plan.\<close>

fun is_object :: "json \<Rightarrow> bool" where
  "is_object (JObj kvs) = True"
| "is_object v = False"

fun call_field :: "json \<Rightarrow> string \<Rightarrow> json option" where
  "call_field (JObj kvs) k = map_of kvs k"
| "call_field v k = None"

text \<open>The entries of a \<open>toolCalls\<close> value that can be run through: a list, or a string.\<close>

fun planned_entries :: "json \<Rightarrow> json list option" where
  "planned_entries (JArr xs) = Some xs"
| "planned_entries (JStr s) = Some (map (\<lambda>c. JStr [c]) s)"
| "planned_entries v = None"

definition call_event :: "json \<Rightarrow> event" where
  "call_event c = EvCallTool (call_field c ''name'') (call_field c ''arguments'')"

fun expected_results :: "'w env \<Rightarrow> json list \<Rightarrow> 'w \<Rightarrow> InvocationResult list" where
  "expected_results E [] w = []"
| "expected_results E (c # cs) w =
     (case peer_callTool E (call_field c ''name'') (call_field c ''arguments'') w of
        (Inl e, w') \<Rightarrow> ToolError (call_field c ''name'') (message_of e) # expected_results E cs w'
      | (Inr r, w') \<Rightarrow> ToolResult (call_field c ''name'') (content r) # expected_results E cs w')"

fun world_after_calls :: "'w env \<Rightarrow> json list \<Rightarrow> 'w \<Rightarrow> 'w" where
  "world_after_calls E [] w = w"
| "world_after_calls E (c # cs) w =
     world_after_calls E cs
       (snd (peer_callTool E (call_field c ''name'') (call_field c ''arguments'') w))"

text \<open>A step of the run that leaves the peer connection as it is.\<close>

definition quiet_step :: "'w state \<Rightarrow> 'w state \<Rightarrow> bool" where
  "quiet_step s s' = (\<exists>mid. snd s' = snd s @ mid \<and> EvClientClose \<notin> set mid)"

text \<open>The text that the trace last wrote to a file.\<close>

fun last_write :: "string \<Rightarrow> event list \<Rightarrow> string option" where
  "last_write p [] = None"
| "last_write p (ev # evs) =
     (case last_write p evs of
        Some t \<Rightarrow> Some t
      | None \<Rightarrow> (case ev of EvWriteFile q t \<Rightarrow> if q = p then Some t else None | _ \<Rightarrow> None))"

section \<open>A concrete peer, planner and file system\<close>

text \<open>
  The examples run the program against a small concrete world: a peer with the tools
  \<open>echo\<close> and \<open>add\<close> that implements neither resources nor prompts, a planner that
  gives a fixed reply, and a file system that keeps what is written to it.
\<close>

text \<open>The compact JSON text of a value whose strings need no escaping.\<close>

fun json_text :: "json \<Rightarrow> string" where
  "json_text JNull = ''null''"
| "json_text (JBool b) = (if b then ''true'' else ''false'')"
| "json_text (JNum n) = string_of_int n"
| "json_text (JStr s) = dq s"
| "json_text (JArr xs) = ''['' @ intercalate '','' (map json_text xs) @ '']''"
| "json_text (JObj kvs) =
     ''{'' @ intercalate '','' (map (\<lambda>kv. dq (fst kv) @ '':'' @ json_text (snd kv)) kvs) @ ''}''"

definition echo_tool :: json where
  "echo_tool = JObj [(''name'', JStr ''echo''), (''description'', JStr ''Echo back a message'')]"

definition add_tool :: json where
  "add_tool = JObj [(''name'', JStr ''add''), (''description'', JStr ''Add two numbers'')]"

definition demo_capabilities :: ServerCapabilities where
  "demo_capabilities = \<lparr> tools = [echo_tool, add_tool], resources = [], prompts = [] \<rparr>"

text \<open>What the planner answers to the analysis prompt.\<close>

definition demo_analysis :: json where
  "demo_analysis =
     JObj [(''expertName'', JStr ''Calculator  Expert''),
           (''expertDescription'', JStr ''Adds numbers and echoes messages''),
           (''systemPrompt'', JStr ''Use add for sums and echo for messages.''),
           (''capabilities'',
              JObj [(''tools'', JArr [JStr ''echo'', JStr ''add'']),
                    (''resources'', JArr []), (''prompts'', JArr [])])]"

text \<open>The descriptor that a discovery run against this world writes.\<close>

definition demo_descriptor :: json where
  "demo_descriptor =
     ServerConfig_object (Some (JStr ''Calculator  Expert''))
       (Some (JStr ''Adds numbers and echoes messages'')) ''node'' [''server.js'']
       (Some (JStr ''Use add for sums and echo for messages.'')) demo_capabilities
       ''2025-09-04T02:34:20.051Z''"

text \<open>A descriptor file whose stored counts do not match its capability lists.\<close>

definition stale_descriptor :: json where
  "stale_descriptor =
     JObj [(''name'', JStr ''Stale Expert''),
           (''description'', JStr ''Edited by hand''),
           (''serverPath'', JStr ''node''),
           (''args'', JArr [JStr ''server.js'']),
           (''systemPrompt'', JStr ''Use the tools.''),
           (''capabilities'',
              JObj [(''tools'', JArr []), (''resources'', JArr []), (''prompts'', JArr [])]),
           (''metadata'',
              JObj [(''analyzedAt'', JStr ''2025-09-04T02:34:20.051Z''),
                    (''toolCount'', JNum 5), (''resourceCount'', JNum 0),
                    (''promptCount'', JNum 0)])]"

text \<open>
  A plan of two calls; the first names a tool the peer does not have (the partial-failure
  scenario).
\<close>

definition demo_calls :: "json list" where
  "demo_calls =
     [JObj [(''name'', JStr ''subtract''),
            (''arguments'', JObj [(''a'', JNum 15), (''b'', JNum 27)])],
      JObj [(''name'', JStr ''add''),
            (''arguments'', JObj [(''a'', JNum 15), (''b'', JNum 27)])]]"

definition demo_plan_fields :: "(string \<times> json) list" where
  "demo_plan_fields =
     [(''toolCalls'', JArr demo_calls), (''explanation'', JStr ''Adding the two numbers'')]"

text \<open>A reply of the planner that is well-formed JSON and no plan.\<close>

definition wrong_shape_reply :: json where
  "wrong_shape_reply = JObj [(''answer'', JNum 42)]"

text \<open>\<^verbatim>\<open>JSON.parse\<close> on the texts of the examples; any other text used is not JSON.\<close>

definition demo_parse :: "string \<Rightarrow> thrown + json" where
  "demo_parse t =
     (if t = json_text demo_descriptor then Inr demo_descriptor
      else if t = json_text stale_descriptor then Inr stale_descriptor
      else if t = json_text demo_analysis then Inr demo_analysis
      else if t = json_text (JObj demo_plan_fields) then Inr (JObj demo_plan_fields)
      else if t = json_text wrong_shape_reply then Inr wrong_shape_reply
      else Inl (Error ''Unexpected token in JSON at position 0''))"

type_synonym files = "(string \<times> string) list"

definition demo_callTool :: "json option \<Rightarrow> json option \<Rightarrow> files \<Rightarrow> (thrown + CallToolResult) \<times> files" where
  "demo_callTool nm arguments w =
     (if nm = Some (JStr ''add'')
      then (Inr \<lparr> content = Some (JArr [JObj [(''type'', JStr ''text''), (''text'', JStr ''42'')]]) \<rparr>, w)
      else if nm = Some (JStr ''echo'')
      then (Inr \<lparr> content = Some (JArr [JObj [(''type'', JStr ''text''), (''text'', JStr ''Echo'')]]) \<rparr>, w)
      else (Inl (Error ''MCP error -32602: Tool not found''), w))"

definition demo_readFile :: "string \<Rightarrow> files \<Rightarrow> (thrown + string) \<times> files" where
  "demo_readFile file w =
     (case map_of w file of
        None \<Rightarrow> (Inl (Error (''ENOENT: no such file or directory, open '' @ quoted file)), w)
      | Some t \<Rightarrow> (Inr t, w))"

fun demo_not_iterable :: "json \<Rightarrow> string" where
  "demo_not_iterable (JNum n) =
     ''number '' @ string_of_int n @
     '' is not iterable (cannot read property Symbol(Symbol.iterator))''"
| "demo_not_iterable (JBool b) =
     ''boolean '' @ (if b then ''true'' else ''false'') @
     '' is not iterable (cannot read property Symbol(Symbol.iterator))''"
| "demo_not_iterable v =
     ''object is not iterable (cannot read property Symbol(Symbol.iterator))''"

text \<open>The environment, given the planner's reply.\<close>

definition demo_env :: "(thrown + string) \<Rightarrow> files env" where
  "demo_env reply =
     \<lparr> OPENAI_API_KEY = Some ''sk-test'',
       process_cwd = ''/work'',
       path_join = (\<lambda>a b. a @ ''/'' @ b),
       JSON_parse = demo_parse,
       JSON_stringify = json_text,
       ZodError_message = (\<lambda>issues. ''Invalid input''),
       not_iterable_message = demo_not_iterable,
       Date_now = (\<lambda>w. 1756953260051),
       Date_toISOString = (\<lambda>w. ''2025-09-04T02:34:20.051Z''),
       peer_connect = (\<lambda>command arguments w. (Inr (), w)),
       peer_listTools = (\<lambda>w. (Inr (Some [echo_tool, add_tool]), w)),
       peer_listResources = (\<lambda>w. (Inl (Error ''MCP error -32601: Method not found''), w)),
       peer_listPrompts = (\<lambda>w. (Inl (Error ''MCP error -32601: Method not found''), w)),
       peer_callTool = demo_callTool,
       peer_close = (\<lambda>w. (Inr (), w)),
       llm_generateText = (\<lambda>prompt w. (reply, w)),
       fs_mkdir = (\<lambda>dir w. (Inr (), w)),
       fs_writeFile = (\<lambda>file t w. (Inr (), (file, t) # w)),
       fs_readFile = demo_readFile,
       transport_close = (\<lambda>w. (Inr (), w)) \<rparr>"

text \<open>
  The same world with a planner whose reply is the text of the value \<open>v\<close>, which
  \<^verbatim>\<open>JSON.parse\<close> reads back as \<open>v\<close>.
\<close>

definition parsing_env :: "json \<Rightarrow> files env" where
  "parsing_env v =
     (demo_env (Inr (json_text v)))
       \<lparr> JSON_parse := (\<lambda>t. if t = json_text v then Inr v
                              else Inl (Error ''Unexpected token in JSON at position 0'')) \<rparr>"

text \<open>Replies of the planner that are JSON and not plans of well-formed calls.\<close>

definition number_toolCalls_reply :: json where
  "number_toolCalls_reply = JObj [(''toolCalls'', JNum 5)]"

definition loose_entries_reply :: json where
  "loose_entries_reply = JObj [(''toolCalls'', JArr [JObj [(''name'', JStr ''add'')], JNum 7])]"

definition null_entry_reply :: json where
  "null_entry_reply =
     JObj [(''toolCalls'',
            JArr [JObj [(''name'', JStr ''add''),
                        (''arguments'', JObj [(''a'', JNum 15), (''b'', JNum 27)])],
                  JNull]),
           (''explanation'', JStr ''Adding the two numbers'')]"

definition demo_config :: WrapperConfig where
  "demo_config =
     \<lparr> name = ''Calculator  Expert'',
       description = ''Adds numbers and echoes messages'',
       serverPath = ''node'',
       args = [''server.js''],
       systemPrompt = ''Use add for sums and echo for messages.'',
       capabilities = demo_capabilities,
       metadata = \<lparr> analyzedAt = ''2025-09-04T02:34:20.051Z'', toolCount = 2,
                    resourceCount = 0, promptCount = 0 \<rparr> \<rparr>"

text \<open>
  The same world with a \<^verbatim>\<open>JSON.stringify\<close> that is known only on the values a
  discovery run prints, so that \<open>demo_parse\<close> reads back exactly what it wrote.
\<close>

definition table_stringify :: "json \<Rightarrow> string" where
  "table_stringify d =
     (if d = demo_descriptor then json_text demo_descriptor
      else if d = JArr [echo_tool, add_tool] then json_text (JArr [echo_tool, add_tool])
      else ''[]'')"

definition roundtrip_env :: "files env" where
  "roundtrip_env = (demo_env (Inr (json_text demo_analysis))) \<lparr> JSON_stringify := table_stringify \<rparr>"

text \<open>Variants: a peer without tool support, and closes that fail.\<close>

definition no_tools_env :: "files env" where
  "no_tools_env =
     (demo_env (Inr (json_text demo_analysis)))
       \<lparr> peer_listTools := (\<lambda>w. (Inl (Error ''MCP error -32601: Method not found''), w)) \<rparr>"

definition peer_close_fails_env :: "files env" where
  "peer_close_fails_env =
     (demo_env (Inr [])) \<lparr> peer_close := (\<lambda>w. (Inl (Error ''Connection closed''), w)) \<rparr>"

definition transport_close_fails_env :: "files env" where
  "transport_close_fails_env =
     (demo_env (Inr [])) \<lparr> transport_close := (\<lambda>w. (Inl (Error ''Not connected''), w)) \<rparr>"

definition stale_files :: files where
  "stale_files = [(''/work/configs/stale-expert-1.json'', json_text stale_descriptor)]"

text \<open>
  The shape of an Invocation Plan in the specification's words: a sequence of calls, each
  a tool name with its arguments, and an explanation string.
\<close>

fun is_planned_call :: "json \<Rightarrow> bool" where
  "is_planned_call (JObj kvs) =
     (case map_of kvs ''name'' of
        Some (JStr n) \<Rightarrow> (case map_of kvs ''arguments'' of Some (JObj a) \<Rightarrow> True | _ \<Rightarrow> False)
      | _ \<Rightarrow> False)"
| "is_planned_call v = False"

fun is_InvocationPlan :: "json \<Rightarrow> bool" where
  "is_InvocationPlan (JObj kvs) =
     (case map_of kvs ''toolCalls'' of
        Some (JArr calls) \<Rightarrow>
          list_all is_planned_call calls \<and>
          (case map_of kvs ''explanation'' of Some (JStr e) \<Rightarrow> True | _ \<Rightarrow> False)
      | _ \<Rightarrow> False)"
| "is_InvocationPlan v = False"

text \<open>
  The types the descriptor schema asks for, field by field, and nothing about how the
  fields relate.
\<close>

fun is_string_value :: "json option \<Rightarrow> bool" where
  "is_string_value (Some (JStr s)) = True"
| "is_string_value v = False"

fun is_number_value :: "json option \<Rightarrow> bool" where
  "is_number_value (Some (JNum n)) = True"
| "is_number_value v = False"

fun is_array_value :: "json option \<Rightarrow> bool" where
  "is_array_value (Some (JArr xs)) = True"
| "is_array_value v = False"

fun is_JStr :: "json \<Rightarrow> bool" where
  "is_JStr (JStr s) = True"
| "is_JStr v = False"

fun is_string_array_value :: "json option \<Rightarrow> bool" where
  "is_string_array_value (Some (JArr xs)) = list_all is_JStr xs"
| "is_string_array_value v = False"

definition has_capability_lists :: "json option \<Rightarrow> bool" where
  "has_capability_lists v =
     (case v of
        Some (JObj cs) \<Rightarrow>
          is_array_value (map_of cs ''tools'') \<and> is_array_value (map_of cs ''resources'') \<and>
          is_array_value (map_of cs ''prompts'')
      | _ \<Rightarrow> False)"

definition has_provenance_fields :: "json option \<Rightarrow> bool" where
  "has_provenance_fields v =
     (case v of
        Some (JObj ms) \<Rightarrow>
          is_string_value (map_of ms ''analyzedAt'') \<and> is_number_value (map_of ms ''toolCount'') \<and>
          is_number_value (map_of ms ''resourceCount'') \<and>
          is_number_value (map_of ms ''promptCount'')
      | _ \<Rightarrow> False)"

definition has_descriptor_types :: "json \<Rightarrow> bool" where
  "has_descriptor_types v =
     (case v of
        JObj kvs \<Rightarrow>
          is_string_value (map_of kvs ''name'') \<and> is_string_value (map_of kvs ''description'') \<and>
          is_string_value (map_of kvs ''serverPath'') \<and>
          is_string_array_value (map_of kvs ''args'') \<and>
          is_string_value (map_of kvs ''systemPrompt'') \<and>
          has_capability_lists (map_of kvs ''capabilities'') \<and>
          has_provenance_fields (map_of kvs ''metadata'')
      | _ \<Rightarrow> False)"

text \<open>A parse that fails reports at least one issue.\<close>

definition reports :: "issue list + 'a \<Rightarrow> bool" where
  "reports r = (case r of Inl issues \<Rightarrow> issues \<noteq> [] | Inr x \<Rightarrow> True)"

text \<open>A descriptor file with a count that is not a number.\<close>

definition mistyped_descriptor :: json where
  "mistyped_descriptor =
     JObj [(''name'', JStr ''Stale Expert''),
           (''description'', JStr ''Edited by hand''),
           (''serverPath'', JStr ''node''),
           (''args'', JArr [JStr ''server.js'']),
           (''systemPrompt'', JStr ''Use the tools.''),
           (''capabilities'',
              JObj [(''tools'', JArr []), (''resources'', JArr []), (''prompts'', JArr [])]),
           (''metadata'',
              JObj [(''analyzedAt'', JStr ''2025-09-04T02:34:20.051Z''),
                    (''toolCount'', JStr ''five''), (''resourceCount'', JNum 0),
                    (''promptCount'', JNum 0)])]"

definition mistyped_files :: files where
  "mistyped_files = [(''/work/configs/stale-expert-2.json'', json_text mistyped_descriptor)]"

section \<open>Properties of the program\<close>

declare string_of_nat.simps [simp del]

lemma is_whitespace_toLowerCase_char: "is_whitespace (toLowerCase_char c) = is_whitespace c"
proof (cases "is_upper c")
  case False
  then show ?thesis by (simp add: toLowerCase_char_def)
next
  case True
  then have b: "(of_char c :: nat) + 32 < 256"
    by (auto simp: is_upper_def Let_def)
  have "(of_char (toLowerCase_char c) :: nat) = of_char c + 32"
    using True b by (simp add: toLowerCase_char_def)
  then show ?thesis using True
    by (auto simp: is_whitespace_def is_upper_def Let_def)
qed

lemma replace_word:
  "list_all (\<lambda>c. \<not> is_whitespace c) w \<Longrightarrow> replace_whitespace_runs (w @ xs) = w @ replace_whitespace_runs xs"
  by (induction w) auto

lemma dropWhile_gap:
  "list_all is_whitespace g \<Longrightarrow> dropWhile is_whitespace (g @ xs) = dropWhile is_whitespace xs"
  by (induction g) auto

lemma replace_gap:
  assumes "is_gap g" "xs = [] \<or> \<not> is_whitespace (hd xs)"
  shows "replace_whitespace_runs (g @ xs) = CHR ''-'' # replace_whitespace_runs xs"
proof -
  from assms(1) obtain c cs where g: "g = c # cs" and c: "is_whitespace c" and cs: "list_all is_whitespace cs"
    by (cases g) (auto simp: is_gap_def)
  have "dropWhile is_whitespace (cs @ xs) = dropWhile is_whitespace xs"
    using cs by (rule dropWhile_gap)
  also have "\<dots> = xs"
    using assms(2) by (cases xs) auto
  finally have "dropWhile is_whitespace (cs @ xs) = xs" .
  then show ?thesis using g c by simp
qed

lemma is_word_lower: "is_word w \<Longrightarrow> is_word (toLowerCase w)"
  by (auto simp: is_word_def toLowerCase_def list_all_iff is_whitespace_toLowerCase_char)

lemma is_gap_lower: "is_gap g \<Longrightarrow> is_gap (toLowerCase g)"
  by (auto simp: is_gap_def toLowerCase_def list_all_iff is_whitespace_toLowerCase_char)

lemma spaced_words_starts_word:
  "is_word w \<Longrightarrow> toLowerCase (spaced_words w rest @ trail) \<noteq> [] \<and>
     \<not> is_whitespace (hd (toLowerCase (spaced_words w rest @ trail)))"
  by (cases w; cases rest) (auto simp: is_word_def toLowerCase_def is_whitespace_toLowerCase_char)

lemma replace_blank:
  assumes "is_blank g" "xs = [] \<or> \<not> is_whitespace (hd xs)"
  shows "replace_whitespace_runs (g @ xs) = edge_hyphen g @ replace_whitespace_runs xs"
proof (cases "g = []")
  case True
  then show ?thesis by (simp add: edge_hyphen_def)
next
  case False
  with assms(1) have "is_gap g" by (simp add: is_gap_def is_blank_def)
  from replace_gap[OF this assms(2)] False show ?thesis by (simp add: edge_hyphen_def)
qed

lemma is_blank_lower: "is_blank g \<Longrightarrow> is_blank (toLowerCase g)"
  by (auto simp: is_blank_def toLowerCase_def list_all_iff is_whitespace_toLowerCase_char)

lemma edge_hyphen_lower: "edge_hyphen (toLowerCase g) = edge_hyphen g"
  by (simp add: edge_hyphen_def toLowerCase_def)

lemma replace_spaced_words:
  "is_word w \<Longrightarrow> list_all (\<lambda>(g, w'). is_gap g \<and> is_word w') rest \<Longrightarrow> is_blank trail \<Longrightarrow>
   replace_whitespace_runs (toLowerCase (spaced_words w rest @ trail)) =
   hyphenated_words w rest @ edge_hyphen trail"
proof (induction rest arbitrary: w)
  case Nil
  have lw: "list_all (\<lambda>c. \<not> is_whitespace c) (toLowerCase w)"
    using is_word_lower[OF Nil(1)] by (simp add: is_word_def)
  have "replace_whitespace_runs (toLowerCase trail @ []) =
        edge_hyphen (toLowerCase trail) @ replace_whitespace_runs []"
    using is_blank_lower[OF Nil(3)] by (intro replace_blank) simp_all
  then have t: "replace_whitespace_runs (toLowerCase trail) = edge_hyphen trail"
    by (simp add: edge_hyphen_lower)
  have "toLowerCase (spaced_words w [] @ trail) = toLowerCase w @ toLowerCase trail"
    by (simp add: toLowerCase_def)
  then show ?case
    by (simp only: replace_word[OF lw] t hyphenated_words.simps)
next
  case (Cons a rest)
  obtain g w' where a: "a = (g, w')" by (cases a)
  from Cons.prems a have g: "is_gap g" and w': "is_word w'"
    and rest: "list_all (\<lambda>(g, w'). is_gap g \<and> is_word w') rest" by auto
  have lw: "list_all (\<lambda>c. \<not> is_whitespace c) (toLowerCase w)"
    using is_word_lower[OF Cons.prems(1)] by (simp add: is_word_def)
  have split: "toLowerCase (spaced_words w (a # rest) @ trail) =
        toLowerCase w @ toLowerCase g @ toLowerCase (spaced_words w' rest @ trail)"
    by (simp add: a toLowerCase_def)
  have "replace_whitespace_runs (toLowerCase g @ toLowerCase (spaced_words w' rest @ trail)) =
        CHR ''-'' # replace_whitespace_runs (toLowerCase (spaced_words w' rest @ trail))"
    using replace_gap[OF is_gap_lower[OF g]] spaced_words_starts_word[OF w'] by blast
  then have "replace_whitespace_runs (toLowerCase (spaced_words w (a # rest) @ trail)) =
        toLowerCase w @ CHR ''-'' # (hyphenated_words w' rest @ edge_hyphen trail)"
    using Cons.IH[OF w' rest Cons.prems(3)] by (simp only: split replace_word[OF lw])
  then show ?case by (simp add: a)
qed

text \<open>
  Claim C8. The entry-point name is a function of the descriptor's name alone. For a name
  made of words separated by runs of whitespace it is the lower-cased words joined by
  single hyphens; whitespace before the first word or after the last, if there is any,
  becomes one hyphen as well.
\<close>

theorem C8_entry_point_name:
  assumes "name config = lead @ spaced_words w rest @ trail"
    and "is_blank lead"
    and "is_word w"
    and "list_all (\<lambda>(g, w'). is_gap g \<and> is_word w') rest"
    and "is_blank trail"
  shows "td_name (createExpertTool config) =
           edge_hyphen lead @ hyphenated_words w rest @ edge_hyphen trail"
proof -
  have "replace_whitespace_runs (toLowerCase lead @ toLowerCase (spaced_words w rest @ trail)) =
        edge_hyphen (toLowerCase lead) @
        replace_whitespace_runs (toLowerCase (spaced_words w rest @ trail))"
    using is_blank_lower[OF assms(2)] spaced_words_starts_word[OF assms(3)]
    by (intro replace_blank) blast+
  moreover have "toLowerCase (name config) =
        toLowerCase lead @ toLowerCase (spaced_words w rest @ trail)"
    by (simp add: assms(1) toLowerCase_def)
  ultimately show ?thesis
    by (simp add: createExpertTool_def Let_def edge_hyphen_lower
        replace_spaced_words[OF assms(3,4,5)])
qed

lemma perform_eq:
  "f (fst s) = (r, w) \<Longrightarrow> perform ev f s = (r, (w, snd s @ [ev]))"
  by (simp add: perform_def)

lemma get_prop_object: "is_object c \<Longrightarrow> get_prop (Some c) k = Inr (call_field c k)"
  by (cases c) auto

lemma run_toolCall_object:
  assumes "is_object c"
  shows "run_toolCall E c (w, tr) =
     (case peer_callTool E (call_field c ''name'') (call_field c ''arguments'') w of
        (Inl e, w') \<Rightarrow> (Inr (ToolError (call_field c ''name'') (message_of e)), (w', tr @ [call_event c]))
      | (Inr r, w') \<Rightarrow> (Inr (ToolResult (call_field c ''name'') (content r)), (w', tr @ [call_event c])))"
  by (simp add: run_toolCall_def attempt_toolCall_def get_prop_object[OF assms] client_callTool_def
      perform_def call_event_def split: prod.splits sum.splits)

lemma run_toolCalls_objects:
  "list_all is_object calls \<Longrightarrow>
   run_toolCalls E calls acc (w, tr) =
     (Inr (acc @ expected_results E calls w),
      (world_after_calls E calls w, tr @ map call_event calls))"
proof (induction calls arbitrary: acc w tr)
  case Nil
  then show ?case by simp
next
  case (Cons c calls)
  then have c: "is_object c" and rest: "list_all is_object calls" by auto
  show ?case
    by (simp add: run_toolCall_object[OF c] Cons.IH[OF rest] split: prod.splits sum.splits)
qed

lemma length_expected_results: "length (expected_results E calls w) = length calls"
  by (induction calls arbitrary: w) (auto split: prod.splits sum.splits)

lemma tools_of_expected_results:
  "map tool (expected_results E calls w) = map (\<lambda>c. call_field c ''name'') calls"
  by (induction calls arbitrary: w) (auto split: prod.splits sum.splits)

lemma handleExpertQuery_execute:
  "mode = None \<or> mode = Some ''execute'' \<Longrightarrow>
   handleExpertQuery E query mode config s = handle_execute E query config s"
  by (auto simp: handleExpertQuery_def)

text \<open>
  Claim C1. In execute mode (the default), when the planner's reply parses to a plan whose
  \<open>toolCalls\<close> is a list of call objects, the query succeeds. After the tool enumeration and
  the planner call the peer receives one \<^verbatim>\<open>callTool\<close> per planned call, in plan order,
  with the call's name and arguments. The results are \<open>expected_results\<close>: one entry per
  planned call, in plan order, under the call's name, an error entry with the message where
  the call failed and a result entry where it succeeded; a failure stops nothing.
\<close>

theorem C1_execute_attempts_every_planned_call:
  assumes "mode = None \<or> mode = Some ''execute''"
    and "peer_listTools E (fst s) = (Inr toolsResponse, w1)"
    and "llm_generateText E (coordinationPrompt E config (or_empty toolsResponse) query) w1 = (Inr txt, w2)"
    and "JSON_parse E txt = Inr (JObj plan)"
    and "map_of plan ''toolCalls'' = Some (JArr calls)"
    and "list_all is_object calls"
  shows "handleExpertQuery E query mode config s =
           (Inr (ExecuteResult (map_of plan ''explanation'') (expected_results E calls w2)),
            (world_after_calls E calls w2,
             snd s @ [EvListTools,
                      EvGenerateText (coordinationPrompt E config (or_empty toolsResponse) query)] @
                     map call_event calls))
         \<and> length (expected_results E calls w2) = length calls
         \<and> map tool (expected_results E calls w2) = map (\<lambda>c. call_field c ''name'') calls"
proof -
  let ?prompt = "coordinationPrompt E config (or_empty toolsResponse) query"
  have lt: "client_listTools E s = (Inr toolsResponse, (w1, snd s @ [EvListTools]))"
    unfolding client_listTools_def using assms(2) by (rule perform_eq)
  have gen: "generateText E ?prompt (w1, snd s @ [EvListTools]) =
      (Inr txt, (w2, (snd s @ [EvListTools]) @ [EvGenerateText ?prompt]))"
    using assms(3) by (simp add: generateText_def perform_def)
  have co: "coordinate E ?prompt (w1, snd s @ [EvListTools]) =
      (Inr (ExecuteResult (map_of plan ''explanation'') (expected_results E calls w2)),
       (world_after_calls E calls w2,
        ((snd s @ [EvListTools]) @ [EvGenerateText ?prompt]) @ map call_event calls))"
    by (simp add: coordinate_def gen assms(4,5) or_empty_array_def
        run_toolCalls_objects[OF assms(6)])
  show ?thesis
    by (simp add: handleExpertQuery_execute[OF assms(1)] handle_execute_def lt co
        length_expected_results tools_of_expected_results)
qed

lemma get_prop_nonnull: "c \<noteq> JNull \<Longrightarrow> get_prop (Some c) k = Inr (call_field c k)"
  by (cases c) auto

lemma run_toolCall_nonnull:
  assumes "c \<noteq> JNull"
  shows "run_toolCall E c (w, tr) =
     (case peer_callTool E (call_field c ''name'') (call_field c ''arguments'') w of
        (Inl e, w') \<Rightarrow> (Inr (ToolError (call_field c ''name'') (message_of e)), (w', tr @ [call_event c]))
      | (Inr r, w') \<Rightarrow> (Inr (ToolResult (call_field c ''name'') (content r)), (w', tr @ [call_event c])))"
  by (simp add: run_toolCall_def attempt_toolCall_def get_prop_nonnull[OF assms] client_callTool_def
      perform_def call_event_def split: prod.splits sum.splits)

lemma run_toolCalls_nonnull:
  "JNull \<notin> set calls \<Longrightarrow>
   run_toolCalls E calls acc (w, tr) =
     (Inr (acc @ expected_results E calls w),
      (world_after_calls E calls w, tr @ map call_event calls))"
proof (induction calls arbitrary: acc w tr)
  case Nil
  then show ?case by simp
next
  case (Cons c calls)
  then have c: "c \<noteq> JNull" and rest: "JNull \<notin> set calls" by auto
  show ?case
    by (simp add: run_toolCall_nonnull[OF c] Cons.IH[OF rest] split: prod.splits sum.splits)
qed

lemma run_toolCall_null:
  "run_toolCall E JNull s =
     (Inl (Error (''Cannot read properties of null (reading '' @ quoted ''name'' @ '')'')), s)"
  by (simp add: run_toolCall_def attempt_toolCall_def)

lemma run_toolCalls_append:
  "run_toolCalls E (xs @ ys) acc s =
     (case run_toolCalls E xs acc s of
        (Inl e, s1) \<Rightarrow> (Inl e, s1)
      | (Inr results, s1) \<Rightarrow> run_toolCalls E ys results s1)"
  by (induction xs arbitrary: acc s) (auto split: prod.splits sum.splits)

lemma run_toolCalls_at_null:
  assumes "JNull \<notin> set pre"
  shows "run_toolCalls E (pre @ JNull # post) acc (w, tr) =
     (Inl (Error (''Cannot read properties of null (reading '' @ quoted ''name'' @ '')'')),
      (world_after_calls E pre w, tr @ map call_event pre))"
  by (simp add: run_toolCalls_append run_toolCalls_nonnull[OF assms] run_toolCall_null)

lemma iterate_planned_entries:
  "planned_entries v = Some calls \<Longrightarrow> iterate E (or_empty_array (Some v)) = Inr calls"
  by (cases v) (auto simp: or_empty_array_def)

lemma iterate_not_iterable:
  "truthy (Some v) \<Longrightarrow> planned_entries v = None \<Longrightarrow>
   iterate E (or_empty_array (Some v)) = Inl (Error (not_iterable_message E v))"
  by (cases v) (auto simp: or_empty_array_def)

lemma iterate_falsy: "\<not> truthy tc \<Longrightarrow> iterate E (or_empty_array tc) = Inr []"
  by (cases tc) (auto simp: or_empty_array_def)

text \<open>
  Claim C2, as amended. In execute mode the planner's reply is checked only as far as
  running it requires. After the tool enumeration and the planner call (the events
  \<open>asked\<close>), the query fails with \<^verbatim>\<open>Failed to coordinate with wrapped server: \<close> and
  the cause, with no tool invoked, when the reply is not JSON, when it parses to
  \<^verbatim>\<open>null\<close>, and when its \<open>toolCalls\<close> is truthy and neither a list nor a string.
  When the reply is any other JSON value whose \<open>toolCalls\<close> is absent or falsy, the query
  does not fail: it returns an empty result list, and no tool is invoked. When
  \<open>toolCalls\<close> is a list (or a string, read character by character), its entries are
  run as calls in order without a check of their shape: if none is \<^verbatim>\<open>null\<close> the
  query succeeds with one entry per call, and at the first \<^verbatim>\<open>null\<close> entry the query
  fails with the same error after the entries before it have been invoked.
\<close>

theorem C2_execute_rejects_only_what_it_cannot_run:
  assumes "mode = None \<or> mode = Some ''execute''"
    and "peer_listTools E (fst s) = (Inr toolsResponse, w1)"
    and "llm_generateText E (coordinationPrompt E config (or_empty toolsResponse) query) w1 = (Inr txt, w2)"
    and "asked = snd s @ [EvListTools,
                          EvGenerateText (coordinationPrompt E config (or_empty toolsResponse) query)]"
  shows "(JSON_parse E txt = Inl e \<longrightarrow>
            handleExpertQuery E query mode config s =
              (Inl (Error (''Failed to coordinate with wrapped server: '' @ message_of e)),
               (w2, asked)))
       \<and> (JSON_parse E txt = Inr JNull \<longrightarrow>
            handleExpertQuery E query mode config s =
              (Inl (Error (''Failed to coordinate with wrapped server: '' @
                           ''Cannot read properties of null (reading '' @ quoted ''toolCalls'' @ '')'')),
               (w2, asked)))
       \<and> (JSON_parse E txt = Inr (JObj kvs) \<and> map_of kvs ''toolCalls'' = Some v \<and>
            truthy (Some v) \<and> planned_entries v = None \<longrightarrow>
            handleExpertQuery E query mode config s =
              (Inl (Error (''Failed to coordinate with wrapped server: '' @ not_iterable_message E v)),
               (w2, asked)))
       \<and> (JSON_parse E txt = Inr plan \<and> plan \<noteq> JNull \<and>
            \<not> truthy (call_field plan ''toolCalls'') \<longrightarrow>
            handleExpertQuery E query mode config s =
              (Inr (ExecuteResult (call_field plan ''explanation'') []), (w2, asked)))
       \<and> (JSON_parse E txt = Inr (JObj kvs) \<and> map_of kvs ''toolCalls'' = Some v \<and>
            planned_entries v = Some calls \<and> JNull \<notin> set calls \<longrightarrow>
            handleExpertQuery E query mode config s =
              (Inr (ExecuteResult (map_of kvs ''explanation'') (expected_results E calls w2)),
               (world_after_calls E calls w2, asked @ map call_event calls)))
       \<and> (JSON_parse E txt = Inr (JObj kvs) \<and> map_of kvs ''toolCalls'' = Some v \<and>
            planned_entries v = Some (pre @ JNull # post) \<and> JNull \<notin> set pre \<longrightarrow>
            handleExpertQuery E query mode config s =
              (Inl (Error (''Failed to coordinate with wrapped server: '' @
                           ''Cannot read properties of null (reading '' @ quoted ''name'' @ '')'')),
               (world_after_calls E pre w2, asked @ map call_event pre)))"
proof -
  let ?prompt = "coordinationPrompt E config (or_empty toolsResponse) query"
  have lt: "client_listTools E s = (Inr toolsResponse, (w1, snd s @ [EvListTools]))"
    unfolding client_listTools_def using assms(2) by (rule perform_eq)
  have gen: "generateText E ?prompt (w1, snd s @ [EvListTools]) = (Inr txt, (w2, asked))"
    using assms(3) by (simp add: generateText_def perform_def assms(4))
  have run: "handleExpertQuery E query mode config s =
      (case coordinate E ?prompt (w1, snd s @ [EvListTools]) of
         (Inl e, s2) \<Rightarrow>
           (Inl (Error (''Failed to coordinate with wrapped server: '' @ message_of e)), s2)
       | (Inr r, s2) \<Rightarrow> (Inr r, s2))"
    by (simp add: handleExpertQuery_execute[OF assms(1)] handle_execute_def lt)
  have c1: "JSON_parse E txt = Inl e \<Longrightarrow>
      coordinate E ?prompt (w1, snd s @ [EvListTools]) = (Inl e, (w2, asked))"
    by (simp add: coordinate_def gen)
  have c2: "JSON_parse E txt = Inr JNull \<Longrightarrow>
      coordinate E ?prompt (w1, snd s @ [EvListTools]) =
        (Inl (Error (''Cannot read properties of null (reading '' @ quoted ''toolCalls'' @ '')'')),
         (w2, asked))"
    by (simp add: coordinate_def gen)
  have c3: "JSON_parse E txt = Inr (JObj kvs) \<Longrightarrow> map_of kvs ''toolCalls'' = Some v \<Longrightarrow>
      truthy (Some v) \<Longrightarrow> planned_entries v = None \<Longrightarrow>
      coordinate E ?prompt (w1, snd s @ [EvListTools]) =
        (Inl (Error (not_iterable_message E v)), (w2, asked))"
    by (simp add: coordinate_def gen iterate_not_iterable)
  have c4: "JSON_parse E txt = Inr plan \<Longrightarrow> plan \<noteq> JNull \<Longrightarrow>
      \<not> truthy (call_field plan ''toolCalls'') \<Longrightarrow>
      coordinate E ?prompt (w1, snd s @ [EvListTools]) =
        (Inr (ExecuteResult (call_field plan ''explanation'') []), (w2, asked))"
    by (simp add: coordinate_def gen get_prop_nonnull iterate_falsy)
  have c5: "JSON_parse E txt = Inr (JObj kvs) \<Longrightarrow> map_of kvs ''toolCalls'' = Some v \<Longrightarrow>
      planned_entries v = Some calls \<Longrightarrow> JNull \<notin> set calls \<Longrightarrow>
      coordinate E ?prompt (w1, snd s @ [EvListTools]) =
        (Inr (ExecuteResult (map_of kvs ''explanation'') (expected_results E calls w2)),
         (world_after_calls E calls w2, asked @ map call_event calls))"
    by (simp add: coordinate_def gen iterate_planned_entries run_toolCalls_nonnull)
  have c6: "JSON_parse E txt = Inr (JObj kvs) \<Longrightarrow> map_of kvs ''toolCalls'' = Some v \<Longrightarrow>
      planned_entries v = Some (pre @ JNull # post) \<Longrightarrow> JNull \<notin> set pre \<Longrightarrow>
      coordinate E ?prompt (w1, snd s @ [EvListTools]) =
        (Inl (Error (''Cannot read properties of null (reading '' @ quoted ''name'' @ '')'')),
         (world_after_calls E pre w2, asked @ map call_event pre))"
    by (simp add: coordinate_def gen iterate_planned_entries run_toolCalls_at_null)
  show ?thesis
  proof (intro conjI impI)
    assume "JSON_parse E txt = Inl e"
    from c1[OF this] show "handleExpertQuery E query mode config s =
        (Inl (Error (''Failed to coordinate with wrapped server: '' @ message_of e)), (w2, asked))"
      by (simp add: run)
  next
    assume "JSON_parse E txt = Inr JNull"
    from c2[OF this] show "handleExpertQuery E query mode config s =
        (Inl (Error (''Failed to coordinate with wrapped server: '' @
                     ''Cannot read properties of null (reading '' @ quoted ''toolCalls'' @ '')'')),
         (w2, asked))"
      by (simp add: run)
  next
    assume "JSON_parse E txt = Inr (JObj kvs) \<and> map_of kvs ''toolCalls'' = Some v \<and>
            truthy (Some v) \<and> planned_entries v = None"
    then have "coordinate E ?prompt (w1, snd s @ [EvListTools]) =
        (Inl (Error (not_iterable_message E v)), (w2, asked))"
      using c3 by blast
    then show "handleExpertQuery E query mode config s =
        (Inl (Error (''Failed to coordinate with wrapped server: '' @ not_iterable_message E v)),
         (w2, asked))"
      by (simp add: run)
  next
    assume "JSON_parse E txt = Inr plan \<and> plan \<noteq> JNull \<and> \<not> truthy (call_field plan ''toolCalls'')"
    then have "coordinate E ?prompt (w1, snd s @ [EvListTools]) =
        (Inr (ExecuteResult (call_field plan ''explanation'') []), (w2, asked))"
      using c4 by blast
    then show "handleExpertQuery E query mode config s =
        (Inr (ExecuteResult (call_field plan ''explanation'') []), (w2, asked))"
      by (simp add: run)
  next
    assume "JSON_parse E txt = Inr (JObj kvs) \<and> map_of kvs ''toolCalls'' = Some v \<and>
            planned_entries v = Some calls \<and> JNull \<notin> set calls"
    then have "coordinate E ?prompt (w1, snd s @ [EvListTools]) =
        (Inr (ExecuteResult (map_of kvs ''explanation'') (expected_results E calls w2)),
         (world_after_calls E calls w2, asked @ map call_event calls))"
      using c5 by blast
    then show "handleExpertQuery E query mode config s =
        (Inr (ExecuteResult (map_of kvs ''explanation'') (expected_results E calls w2)),
         (world_after_calls E calls w2, asked @ map call_event calls))"
      by (simp add: run)
  next
    assume "JSON_parse E txt = Inr (JObj kvs) \<and> map_of kvs ''toolCalls'' = Some v \<and>
            planned_entries v = Some (pre @ JNull # post) \<and> JNull \<notin> set pre"
    then have "coordinate E ?prompt (w1, snd s @ [EvListTools]) =
        (Inl (Error (''Cannot read properties of null (reading '' @ quoted ''name'' @ '')'')),
         (world_after_calls E pre w2, asked @ map call_event pre))"
      using c6 by blast
    then show "handleExpertQuery E query mode config s =
        (Inl (Error (''Failed to coordinate with wrapped server: '' @
                     ''Cannot read properties of null (reading '' @ quoted ''name'' @ '')'')),
         (world_after_calls E pre w2, asked @ map call_event pre))"
      by (simp add: run)
  qed
qed

lemma z_both_Inl_right: "b = Inl ib \<Longrightarrow> \<exists>issues. z_both a b = Inl issues \<and> set ib \<subseteq> set issues"
  by (cases a) (auto simp: z_both_def)

lemma z_mode_rejects:
  assumes "v \<notin> {JStr ''discover'', JStr ''execute'', JStr ''explain''}"
  shows "z_mode p (Some v) = Inl [(p, ''discover | execute | explain'')]"
  using assms by (cases v) auto

text \<open>
  Claim C9. A call of the entry point whose arguments carry a \<open>mode\<close> that is none of
  the three strings is rejected with the validation error, which names \<open>mode\<close>; the state
  is returned unchanged, so nothing was asked of the peer or the planner and execute mode
  did not run.
\<close>

theorem C9_mode_outside_enumeration_is_rejected:
  assumes "params_name request = td_name expertTool"
    and "params_arguments request = Some (JObj kvs)"
    and "map_of kvs ''mode'' = Some v"
    and "v \<notin> {JStr ''discover'', JStr ''execute'', JStr ''explain''}"
  shows "\<exists>issues. CallToolRequest_handler E config expertTool request s =
                     (Inl (Error (ZodError_message E issues)), s)
                  \<and> ([Key ''mode''], ''discover | execute | explain'') \<in> set issues"
proof -
  from z_both_Inl_right[OF z_mode_rejects[OF assms(4)]]
  obtain issues where
    i: "z_both (z_string [Key ''query''] (map_of kvs ''query'')) (z_mode [Key ''mode''] (Some v)) = Inl issues"
    and m: "([Key ''mode''], ''discover | execute | explain'') \<in> set issues"
    by fastforce
  have "CallToolRequest_handler E config expertTool request s =
          (Inl (Error (ZodError_message E issues)), s)"
    by (simp add: CallToolRequest_handler_def assms(1,2,3) ExpertToolSchema_parse_def i)
  with m show ?thesis by blast
qed

lemma handle_discover_trace:
  "snd (snd (handle_discover E config s)) = snd s @ [EvListTools, EvListResources, EvListPrompts]"
  by (simp add: handle_discover_def client_listTools_def client_listResources_def
      client_listPrompts_def perform_def split: prod.splits sum.splits)

lemma handle_explain_trace:
  "snd (snd (handle_explain E config s)) = snd s @ [EvListTools]"
  by (simp add: handle_explain_def client_listTools_def perform_def split: prod.splits sum.splits)

lemma CallToolRequest_handler_query:
  assumes "params_name request = td_name expertTool"
    and "params_arguments request = Some (JObj kvs)"
    and "map_of kvs ''query'' = Some (JStr q)"
    and "map_of kvs ''mode'' = Some (JStr m)"
    and "m = ''discover'' \<or> m = ''explain''"
  shows "CallToolRequest_handler E config expertTool request s =
     (case (if m = ''discover'' then handle_discover E config s else handle_explain E config s) of
        (Inl e, s1) \<Rightarrow> (Inl e, s1)
      | (Inr r, s1) \<Rightarrow>
          (Inr (JObj [(''content'',
                  JArr [JObj [(''type'', JStr ''text''),
                              (''text'', JStr (JSON_stringify E (QueryResult_object r)))]])]),
           s1))"
  using assms(5)
  by (auto simp: CallToolRequest_handler_def assms(1,2,3,4) ExpertToolSchema_parse_def z_both_def
      handleExpertQuery_def)

text \<open>
  Claim C10. Two calls of the entry point in the same mode, discover or explain, that
  differ in their query give the same response and the same final state; the events they
  add are enumeration requests only, so the planner is not called.
\<close>

theorem C10_discover_and_explain_ignore_the_query:
  assumes "m = ''discover'' \<or> m = ''explain''"
    and "params_name r1 = td_name expertTool" and "params_name r2 = td_name expertTool"
    and "params_arguments r1 = Some (JObj kvs1)" and "params_arguments r2 = Some (JObj kvs2)"
    and "map_of kvs1 ''query'' = Some (JStr q1)" and "map_of kvs2 ''query'' = Some (JStr q2)"
    and "map_of kvs1 ''mode'' = Some (JStr m)" and "map_of kvs2 ''mode'' = Some (JStr m)"
  shows "CallToolRequest_handler E config expertTool r1 s =
         CallToolRequest_handler E config expertTool r2 s
       \<and> (\<exists>evs. snd (snd (CallToolRequest_handler E config expertTool r1 s)) = snd s @ evs
              \<and> set evs \<subseteq> {EvListTools, EvListResources, EvListPrompts})"
proof -
  note h1 = CallToolRequest_handler_query[OF assms(2) assms(4) assms(6) assms(8) assms(1), of E config s]
  note h2 = CallToolRequest_handler_query[OF assms(3) assms(5) assms(7) assms(9) assms(1), of E config s]
  have same: "CallToolRequest_handler E config expertTool r1 s =
              CallToolRequest_handler E config expertTool r2 s"
    by (simp only: h1 h2)
  have "snd (snd (CallToolRequest_handler E config expertTool r1 s)) =
        snd (snd (if m = ''discover'' then handle_discover E config s else handle_explain E config s))"
    by (simp add: h1 split: prod.splits sum.splits)
  then have "snd (snd (CallToolRequest_handler E config expertTool r1 s)) =
        snd s @ (if m = ''discover'' then [EvListTools, EvListResources, EvListPrompts]
                 else [EvListTools])"
    by (simp add: handle_discover_trace handle_explain_trace)
  then have "\<exists>evs. snd (snd (CallToolRequest_handler E config expertTool r1 s)) = snd s @ evs
              \<and> set evs \<subseteq> {EvListTools, EvListResources, EvListPrompts}"
    by (cases "m = ''discover''") auto
  with same show ?thesis by blast
qed

text \<open>
  Claim C6, as amended. On \<^verbatim>\<open>SIGINT\<close> the handler closes the peer connection; when
  that succeeds it closes the serving transport; when that succeeds too it exits with
  status 0. A close that throws ends the handler: after a failed peer close neither the
  transport close nor the exit happens, after a failed transport close the exit does
  not.
\<close>

theorem C6_shutdown_stops_at_the_first_failing_close:
  "(peer_close E (fst s) = (Inl e, w1) \<longrightarrow>
      on_SIGINT E s = (Rejected e, (w1, snd s @ [EvClientClose])))
 \<and> (peer_close E (fst s) = (Inr (), w1) \<and> transport_close E w1 = (Inl e, w2) \<longrightarrow>
      on_SIGINT E s = (Rejected e, (w2, snd s @ [EvClientClose, EvServerClose])))
 \<and> (peer_close E (fst s) = (Inr (), w1) \<and> transport_close E w1 = (Inr (), w2) \<longrightarrow>
      on_SIGINT E s = (Exited 0, (w2, snd s @ [EvClientClose, EvServerClose, EvExit 0])))"
  by (simp add: on_SIGINT_def client_close_def server_close_def perform_def)

lemma discoverCapabilities_tools_fail:
  "peer_listTools E (fst s) = (Inl e, w1) \<Longrightarrow>
   discoverCapabilities E s = (Inl e, (w1, snd s @ [EvListTools]))"
  by (simp add: discoverCapabilities_def client_listTools_def perform_def)

lemma discoverCapabilities_tools_ok:
  "peer_listTools E (fst s) = (Inr t, w1) \<Longrightarrow>
   discoverCapabilities E s =
     (Inr \<lparr> tools = or_empty t,
            resources = (case fst (peer_listResources E w1) of Inl e \<Rightarrow> [] | Inr r \<Rightarrow> or_empty r),
            prompts = (case fst (peer_listPrompts E (snd (peer_listResources E w1))) of
                         Inl e \<Rightarrow> [] | Inr r \<Rightarrow> or_empty r) \<rparr>,
      (snd (peer_listPrompts E (snd (peer_listResources E w1))),
       snd s @ [EvListTools, EvListResources, EvListPrompts]))"
  by (simp add: discoverCapabilities_def client_listTools_def client_listResources_def
      client_listPrompts_def perform_def Let_def split: prod.splits sum.splits)

text \<open>
  Claim C4. When the tool list arrives, \<open>discoverCapabilities\<close> succeeds: a resource
  or prompt request that fails gives the empty list. When the tool-list request fails,
  \<open>discoverCapabilities\<close> fails with that error, and a discovery run over an open
  connection ends in an error (that of the enumeration, unless the close throws one of
  its own) after exactly three events, connect, tool enumeration and close: the planner
  is not called.
\<close>

theorem C4_tools_mandatory_resources_and_prompts_optional:
  "(peer_listTools E (fst s) = (Inr t, w1) \<longrightarrow>
      (\<exists>caps s'. discoverCapabilities E s = (Inr caps, s')
         \<and> tools caps = or_empty t
         \<and> resources caps = (case fst (peer_listResources E w1) of Inl e \<Rightarrow> [] | Inr r \<Rightarrow> or_empty r)
         \<and> prompts caps = (case fst (peer_listPrompts E (snd (peer_listResources E w1))) of
                             Inl e \<Rightarrow> [] | Inr r \<Rightarrow> or_empty r)))
 \<and> (peer_listTools E (fst s) = (Inl e, w1) \<longrightarrow>
      discoverCapabilities E s = (Inl e, (w1, snd s @ [EvListTools])))
 \<and> (validateEnvironment E = Inr () \<and> peer_connect E serverPath' args' (fst s) = (Inr (), w0)
      \<and> peer_listTools E w0 = (Inl e, w1) \<longrightarrow>
      analyzeServer E serverPath' args' s =
        (Inl (case fst (peer_close E w1) of Inl ce \<Rightarrow> ce | Inr u \<Rightarrow> e),
         (snd (peer_close E w1),
          snd s @ [EvConnect serverPath' args', EvListTools, EvClientClose])))"
proof (intro conjI impI)
  assume "peer_listTools E (fst s) = (Inr t, w1)"
  from discoverCapabilities_tools_ok[OF this]
  show "\<exists>caps s'. discoverCapabilities E s = (Inr caps, s')
         \<and> tools caps = or_empty t
         \<and> resources caps = (case fst (peer_listResources E w1) of Inl e \<Rightarrow> [] | Inr r \<Rightarrow> or_empty r)
         \<and> prompts caps = (case fst (peer_listPrompts E (snd (peer_listResources E w1))) of
                             Inl e \<Rightarrow> [] | Inr r \<Rightarrow> or_empty r)"
    by simp
next
  assume "peer_listTools E (fst s) = (Inl e, w1)"
  then show "discoverCapabilities E s = (Inl e, (w1, snd s @ [EvListTools]))"
    by (rule discoverCapabilities_tools_fail)
next
  assume a: "validateEnvironment E = Inr () \<and> peer_connect E serverPath' args' (fst s) = (Inr (), w0)
      \<and> peer_listTools E w0 = (Inl e, w1)"
  then have c: "connectToServer E serverPath' args' s = (Inr (), (w0, snd s @ [EvConnect serverPath' args']))"
    by (simp add: connectToServer_def client_connect_def perform_def)
  have d: "discoverCapabilities E (w0, snd s @ [EvConnect serverPath' args']) =
           (Inl e, (w1, (snd s @ [EvConnect serverPath' args']) @ [EvListTools]))"
    using a discoverCapabilities_tools_fail[of E "(w0, snd s @ [EvConnect serverPath' args'])" e w1] by simp
  have ac: "analyze_connected E serverPath' args' (w0, snd s @ [EvConnect serverPath' args']) =
           (Inl e, (w1, (snd s @ [EvConnect serverPath' args']) @ [EvListTools]))"
    by (simp add: analyze_connected_def d)
  show "analyzeServer E serverPath' args' s =
        (Inl (case fst (peer_close E w1) of Inl ce \<Rightarrow> ce | Inr u \<Rightarrow> e),
         (snd (peer_close E w1),
          snd s @ [EvConnect serverPath' args', EvListTools, EvClientClose]))"
    using a by (simp add: analyzeServer_def c ac client_close_def perform_def split: prod.splits sum.splits)
qed

lemma quiet_step_trans: "quiet_step s s1 \<Longrightarrow> quiet_step s1 s2 \<Longrightarrow> quiet_step s s2"
  by (auto simp: quiet_step_def)

lemma discoverCapabilities_quiet: "discoverCapabilities E s = (r, s') \<Longrightarrow> quiet_step s s'"
  by (auto simp: discoverCapabilities_def client_listTools_def client_listResources_def
      client_listPrompts_def perform_def quiet_step_def Let_def split: prod.splits sum.splits)

lemma analyzeWithLLM_quiet: "analyzeWithLLM E caps s = (r, s') \<Longrightarrow> quiet_step s s'"
  by (auto simp: analyzeWithLLM_def generateText_def perform_def quiet_step_def
      split: prod.splits sum.splits)

lemma saveConfiguration_quiet: "saveConfiguration E config s = (r, s') \<Longrightarrow> quiet_step s s'"
  by (auto simp: saveConfiguration_def mkdir_def writeFile_def perform_def quiet_step_def Let_def
      split: prod.splits sum.splits)

lemma analyze_connected_quiet:
  assumes "analyze_connected E serverPath' args' s = (r, s')"
  shows "quiet_step s s'"
proof -
  obtain r1 s1 where d: "discoverCapabilities E s = (r1, s1)" by (cases "discoverCapabilities E s")
  note q1 = discoverCapabilities_quiet[OF d]
  show ?thesis
  proof (cases r1)
    case (Inl e)
    with assms d q1 show ?thesis by (simp add: analyze_connected_def)
  next
    case (Inr caps)
    obtain r2 s2 where l: "analyzeWithLLM E caps s1 = (r2, s2)" by (cases "analyzeWithLLM E caps s1")
    have q2: "quiet_step s s2"
      using q1 analyzeWithLLM_quiet[OF l] by (rule quiet_step_trans)
    show ?thesis
    proof (cases r2)
      case (Inl e)
      with assms d l q2 \<open>r1 = Inr caps\<close> show ?thesis by (simp add: analyze_connected_def)
    next
      case analysis: (Inr analysis)
      have "s' = s2 \<or> (\<exists>config r3. saveConfiguration E config s2 = (r3, s'))"
        using assms d l Inr analysis
        by (auto simp: analyze_connected_def split: prod.splits sum.splits)
      then show ?thesis
        using q2 saveConfiguration_quiet quiet_step_trans by blast
    qed
  qed
qed

text \<open>
  Claim C5. Once the connection of a discovery run is open, whatever the run's outcome
  (success, a failed enumeration, a failed analysis, a failed write), the events of the
  run are the connect, then events none of which closes the client, then one close of the
  client as the last event, before the outcome is returned.
\<close>

theorem C5_connection_closed_exactly_once:
  assumes "validateEnvironment E = Inr ()"
    and "peer_connect E serverPath' args' (fst s) = (Inr (), w1)"
  shows "\<exists>mid. snd (snd (analyzeServer E serverPath' args' s)) =
                 snd s @ [EvConnect serverPath' args'] @ mid @ [EvClientClose]
               \<and> EvClientClose \<notin> set mid"
proof -
  let ?s1 = "(w1, snd s @ [EvConnect serverPath' args'])"
  have c: "connectToServer E serverPath' args' s = (Inr (), ?s1)"
    using assms(2) by (simp add: connectToServer_def client_connect_def perform_def)
  obtain r s2 where a: "analyze_connected E serverPath' args' ?s1 = (r, s2)"
    by (cases "analyze_connected E serverPath' args' ?s1")
  from analyze_connected_quiet[OF a] obtain mid
    where mid: "snd s2 = (snd s @ [EvConnect serverPath' args']) @ mid"
      and quiet: "EvClientClose \<notin> set mid"
    by (auto simp: quiet_step_def)
  have "snd (snd (analyzeServer E serverPath' args' s)) = snd s2 @ [EvClientClose]"
    by (simp add: analyzeServer_def assms(1) c a client_close_def perform_def
        split: prod.splits sum.splits)
  with mid quiet show ?thesis by auto
qed

lemma strings_of_map_JStr: "strings_of (map JStr a) = a"
  by (induction a) auto

lemma element_issues_map_JStr: "element_issues p i (map JStr a) = []"
  by (induction a arbitrary: i) auto

lemma loadConfig_typed_fields:
  assumes "fs_readFile E configPath (fst s) = (Inr txt, w)"
    and "JSON_parse E txt = Inr (JObj kvs)"
    and "map_of kvs ''name'' = Some (JStr n)"
    and "map_of kvs ''description'' = Some (JStr d)"
    and "map_of kvs ''serverPath'' = Some (JStr sp)"
    and "map_of kvs ''args'' = Some (JArr (map JStr a))"
    and "map_of kvs ''systemPrompt'' = Some (JStr pr)"
    and "map_of kvs ''capabilities'' = Some (JObj cs)"
    and "map_of cs ''tools'' = Some (JArr ts)"
    and "map_of cs ''resources'' = Some (JArr rs)"
    and "map_of cs ''prompts'' = Some (JArr ps)"
    and "map_of kvs ''metadata'' = Some (JObj ms)"
    and "map_of ms ''analyzedAt'' = Some (JStr at)"
    and "map_of ms ''toolCount'' = Some (JNum tc)"
    and "map_of ms ''resourceCount'' = Some (JNum rc)"
    and "map_of ms ''promptCount'' = Some (JNum pc)"
  shows "loadConfig E configPath s =
           (Inr \<lparr> name = n, description = d, serverPath = sp, args = a, systemPrompt = pr,
                  capabilities = \<lparr> tools = ts, resources = rs, prompts = ps \<rparr>,
                  metadata = \<lparr> analyzedAt = at, toolCount = tc, resourceCount = rc,
                               promptCount = pc \<rparr> \<rparr>,
            (w, snd s @ [EvReadFile configPath]))"
proof -
  have caps: "capabilities_schema_parse [Key ''capabilities''] (Some (JObj cs)) =
              Inr \<lparr> tools = ts, resources = rs, prompts = ps \<rparr>"
    by (simp add: capabilities_schema_parse_def assms(9,10,11) z_both_def)
  have meta: "metadata_schema_parse [Key ''metadata''] (Some (JObj ms)) =
              Inr \<lparr> analyzedAt = at, toolCount = tc, resourceCount = rc, promptCount = pc \<rparr>"
    by (simp add: metadata_schema_parse_def assms(13,14,15,16) z_both_def)
  have schema: "WrapperConfigSchema_parse (JObj kvs) =
           Inr \<lparr> name = n, description = d, serverPath = sp, args = a, systemPrompt = pr,
                  capabilities = \<lparr> tools = ts, resources = rs, prompts = ps \<rparr>,
                  metadata = \<lparr> analyzedAt = at, toolCount = tc, resourceCount = rc,
                               promptCount = pc \<rparr> \<rparr>"
    by (simp add: WrapperConfigSchema_parse_def assms(3,4,5,6,7,8,12) caps meta z_both_def
        strings_of_map_JStr element_issues_map_JStr)
  show ?thesis
    using assms(1) by (simp add: loadConfig_def readFile_def perform_def assms(2) schema)
qed

lemma isl_z_string: "isl (z_string p v) = (\<not> is_string_value v)"
  by (cases "(p, v)" rule: z_string.cases) auto

lemma isl_z_number: "isl (z_number p v) = (\<not> is_number_value v)"
  by (cases "(p, v)" rule: z_number.cases) auto

lemma isl_z_array_any: "isl (z_array_any p v) = (\<not> is_array_value v)"
  by (cases "(p, v)" rule: z_array_any.cases) auto

lemma element_issues_Nil: "(element_issues p i xs = []) = list_all is_JStr xs"
  by (induction p i xs rule: element_issues.induct) auto

lemma isl_z_array_string: "isl (z_array_string p v) = (\<not> is_string_array_value v)"
  by (cases "(p, v)" rule: z_array_string.cases) (auto simp: element_issues_Nil)

lemma isl_z_both: "isl (z_both a b) = (isl a \<or> isl b)"
  by (cases a; cases b) (auto simp: z_both_def)

lemma isl_case_sum:
  "(\<And>x. \<not> isl (h x)) \<Longrightarrow> isl (case r of Inl i \<Rightarrow> Inl i | Inr x \<Rightarrow> h x) = isl r"
  by (cases r) auto

lemma isl_capabilities_schema_parse:
  "isl (capabilities_schema_parse p v) = (\<not> has_capability_lists v)"
proof (cases v)
  case None
  then show ?thesis by (simp add: capabilities_schema_parse_def has_capability_lists_def)
next
  case (Some j)
  show ?thesis
  proof (cases j)
    case (JObj cs)
    have "isl (capabilities_schema_parse p (Some (JObj cs))) =
          isl (z_both (z_array_any (p @ [Key ''tools'']) (map_of cs ''tools''))
                 (z_both (z_array_any (p @ [Key ''resources'']) (map_of cs ''resources''))
                         (z_array_any (p @ [Key ''prompts'']) (map_of cs ''prompts''))))"
      unfolding capabilities_schema_parse_def by (simp add: isl_case_sum split: prod.splits)
    then show ?thesis
      by (simp add: Some JObj has_capability_lists_def isl_z_both isl_z_array_any)
  qed (simp_all add: Some capabilities_schema_parse_def has_capability_lists_def)
qed

lemma isl_metadata_schema_parse:
  "isl (metadata_schema_parse p v) = (\<not> has_provenance_fields v)"
proof (cases v)
  case None
  then show ?thesis by (simp add: metadata_schema_parse_def has_provenance_fields_def)
next
  case (Some j)
  show ?thesis
  proof (cases j)
    case (JObj ms)
    have "isl (metadata_schema_parse p (Some (JObj ms))) =
          isl (z_both (z_string (p @ [Key ''analyzedAt'']) (map_of ms ''analyzedAt''))
                 (z_both (z_number (p @ [Key ''toolCount'']) (map_of ms ''toolCount''))
                 (z_both (z_number (p @ [Key ''resourceCount'']) (map_of ms ''resourceCount''))
                         (z_number (p @ [Key ''promptCount'']) (map_of ms ''promptCount'')))))"
      unfolding metadata_schema_parse_def by (simp add: isl_case_sum split: prod.splits)
    then show ?thesis
      by (simp add: Some JObj has_provenance_fields_def isl_z_both isl_z_string isl_z_number)
  qed (simp_all add: Some metadata_schema_parse_def has_provenance_fields_def)
qed

lemma isl_WrapperConfigSchema_parse:
  "isl (WrapperConfigSchema_parse v) = (\<not> has_descriptor_types v)"
proof (cases v)
  case (JObj kvs)
  have "isl (WrapperConfigSchema_parse (JObj kvs)) =
        isl (z_both (z_string [Key ''name''] (map_of kvs ''name''))
               (z_both (z_string [Key ''description''] (map_of kvs ''description''))
               (z_both (z_string [Key ''serverPath''] (map_of kvs ''serverPath''))
               (z_both (z_array_string [Key ''args''] (map_of kvs ''args''))
               (z_both (z_string [Key ''systemPrompt''] (map_of kvs ''systemPrompt''))
               (z_both (capabilities_schema_parse [Key ''capabilities''] (map_of kvs ''capabilities''))
                       (metadata_schema_parse [Key ''metadata''] (map_of kvs ''metadata''))))))))"
    unfolding WrapperConfigSchema_parse_def by (simp add: isl_case_sum split: prod.splits)
  then show ?thesis
    by (simp add: JObj has_descriptor_types_def isl_z_both isl_z_string isl_z_array_string
        isl_capabilities_schema_parse isl_metadata_schema_parse)
qed (simp_all add: WrapperConfigSchema_parse_def has_descriptor_types_def)

lemma reports_leaf:
  "reports (z_string p v)" "reports (z_number p v)" "reports (z_array_any p v)"
  "reports (z_array_string p v)"
proof -
  show "reports (z_string p v)"
    by (cases "(p, v)" rule: z_string.cases) (auto simp: reports_def)
  show "reports (z_number p v)"
    by (cases "(p, v)" rule: z_number.cases) (auto simp: reports_def)
  show "reports (z_array_any p v)"
    by (cases "(p, v)" rule: z_array_any.cases) (auto simp: reports_def)
  show "reports (z_array_string p v)"
    by (cases "(p, v)" rule: z_array_string.cases) (auto simp: reports_def)
qed

lemma reports_z_both: "reports a \<Longrightarrow> reports b \<Longrightarrow> reports (z_both a b)"
  by (cases a; cases b) (auto simp: z_both_def reports_def)

lemma reports_case_sum:
  "reports r \<Longrightarrow> (\<And>x. reports (h x)) \<Longrightarrow> reports (case r of Inl i \<Rightarrow> Inl i | Inr x \<Rightarrow> h x)"
  by (cases r) (auto simp: reports_def)

lemma reports_capabilities_schema_parse: "reports (capabilities_schema_parse p v)"
  unfolding capabilities_schema_parse_def
  by (auto split: option.splits json.splits simp: reports_def[of "Inl _"]
      intro!: reports_case_sum reports_z_both reports_leaf) (auto simp: reports_def)

lemma reports_metadata_schema_parse: "reports (metadata_schema_parse p v)"
  unfolding metadata_schema_parse_def
  by (auto split: option.splits json.splits simp: reports_def[of "Inl _"]
      intro!: reports_case_sum reports_z_both reports_leaf) (auto simp: reports_def)

lemma reports_WrapperConfigSchema_parse: "reports (WrapperConfigSchema_parse v)"
  unfolding WrapperConfigSchema_parse_def
  by (auto split: json.splits simp: reports_def[of "Inl _"]
      intro!: reports_case_sum reports_z_both reports_leaf reports_capabilities_schema_parse
        reports_metadata_schema_parse) (auto simp: reports_def)


text \<open>
  Claim C3, as amended. Loading validates the types of the descriptor's fields and
  nothing else. For a readable file whose text parses to the value \<open>v\<close>, loading
  succeeds exactly when \<open>v\<close> has the types of the schema (\<open>has_descriptor_types\<close>);
  otherwise it fails with \<^verbatim>\<open>Failed to load configuration: \<close> followed by the text of
  a validation error that reports at least one issue. On success the loaded descriptor
  carries the stored counts \<open>tc\<close>, \<open>rc\<close>, \<open>pc\<close> unchanged, whatever the lists
  \<open>ts\<close>, \<open>rs\<close>, \<open>ps\<close> are: the counts are not compared with the lengths.
\<close>

theorem C3_loading_validates_types_only:
  assumes "fs_readFile E configPath (fst s) = (Inr txt, w)"
    and "JSON_parse E txt = Inr v"
  shows "((\<exists>cfg. loadConfig E configPath s = (Inr cfg, (w, snd s @ [EvReadFile configPath]))) =
            has_descriptor_types v)
       \<and> (\<not> has_descriptor_types v \<longrightarrow>
            (\<exists>issues. issues \<noteq> [] \<and>
               loadConfig E configPath s =
                 (Inl (Error (''Failed to load configuration: '' @ ZodError_message E issues)),
                  (w, snd s @ [EvReadFile configPath]))))
       \<and> (v = JObj kvs
            \<and> map_of kvs ''name'' = Some (JStr n)
            \<and> map_of kvs ''description'' = Some (JStr d)
            \<and> map_of kvs ''serverPath'' = Some (JStr sp)
            \<and> map_of kvs ''args'' = Some (JArr (map JStr a))
            \<and> map_of kvs ''systemPrompt'' = Some (JStr pr)
            \<and> map_of kvs ''capabilities'' = Some (JObj cs)
            \<and> map_of cs ''tools'' = Some (JArr ts)
            \<and> map_of cs ''resources'' = Some (JArr rs)
            \<and> map_of cs ''prompts'' = Some (JArr ps)
            \<and> map_of kvs ''metadata'' = Some (JObj ms)
            \<and> map_of ms ''analyzedAt'' = Some (JStr at)
            \<and> map_of ms ''toolCount'' = Some (JNum tc)
            \<and> map_of ms ''resourceCount'' = Some (JNum rc)
            \<and> map_of ms ''promptCount'' = Some (JNum pc) \<longrightarrow>
            loadConfig E configPath s =
              (Inr \<lparr> name = n, description = d, serverPath = sp, args = a, systemPrompt = pr,
                     capabilities = \<lparr> tools = ts, resources = rs, prompts = ps \<rparr>,
                     metadata = \<lparr> analyzedAt = at, toolCount = tc, resourceCount = rc,
                                  promptCount = pc \<rparr> \<rparr>,
               (w, snd s @ [EvReadFile configPath])))"
proof -
  have load: "loadConfig E configPath s =
      (case WrapperConfigSchema_parse v of
         Inl issues \<Rightarrow> (Inl (Error (''Failed to load configuration: '' @ ZodError_message E issues)),
                         (w, snd s @ [EvReadFile configPath]))
       | Inr c \<Rightarrow> (Inr c, (w, snd s @ [EvReadFile configPath])))"
    using assms(1) by (simp add: loadConfig_def readFile_def perform_def assms(2) split: sum.splits)
  have accept: "(\<exists>cfg. loadConfig E configPath s = (Inr cfg, (w, snd s @ [EvReadFile configPath]))) =
            has_descriptor_types v"
    using isl_WrapperConfigSchema_parse[of v]
    by (cases "WrapperConfigSchema_parse v") (auto simp: load)
  have reject: "\<exists>issues. issues \<noteq> [] \<and>
               loadConfig E configPath s =
                 (Inl (Error (''Failed to load configuration: '' @ ZodError_message E issues)),
                  (w, snd s @ [EvReadFile configPath]))"
    if "\<not> has_descriptor_types v"
    using that isl_WrapperConfigSchema_parse[of v] reports_WrapperConfigSchema_parse[of v]
    by (cases "WrapperConfigSchema_parse v") (auto simp: load reports_def)
  from accept reject show ?thesis
    using loadConfig_typed_fields[OF assms(1), of kvs n d sp a pr cs ts rs ps ms at tc rc pc] assms(2)
    by blast
qed

lemma saveConfiguration_success:
  "saveConfiguration E config s = (Inr p, s') \<Longrightarrow>
   \<exists>dir. snd s' = snd s @ [EvMkdir dir, EvWriteFile p (JSON_stringify E config)]"
  by (auto simp: saveConfiguration_def mkdir_def writeFile_def perform_def Let_def
      split: prod.splits sum.splits)

lemma analyze_connected_success:
  assumes "analyze_connected E serverPath' args' s = (Inr res, s')"
  shows "\<exists>en ed pr now tr0. snd s' =
           tr0 @ [EvWriteFile (ar_configPath res)
                    (JSON_stringify E
                       (ServerConfig_object en ed serverPath' args' pr (ar_capabilities res) now))]"
proof -
  from assms obtain caps en ed pr now s2 p
    where sv: "saveConfiguration E (ServerConfig_object en ed serverPath' args' pr caps now) s2 = (Inr p, s')"
      and res: "ar_capabilities res = caps" "ar_configPath res = p"
    by (auto simp: analyze_connected_def split: prod.splits sum.splits)
  from saveConfiguration_success[OF sv] obtain dir where
    "snd s' = snd s2 @ [EvMkdir dir,
        EvWriteFile p (JSON_stringify E (ServerConfig_object en ed serverPath' args' pr caps now))]"
    by blast
  then have "snd s' = (snd s2 @ [EvMkdir dir]) @
      [EvWriteFile (ar_configPath res)
         (JSON_stringify E (ServerConfig_object en ed serverPath' args' pr (ar_capabilities res) now))]"
    by (simp add: res)
  then show ?thesis by blast
qed

lemma analyzeServer_success:
  assumes "analyzeServer E serverPath' args' s = (Inr res, s1)"
  shows "\<exists>en ed pr now tr0. snd s1 =
           tr0 @ [EvWriteFile (ar_configPath res)
                    (JSON_stringify E
                       (ServerConfig_object en ed serverPath' args' pr (ar_capabilities res) now)),
                  EvClientClose]"
proof -
  from assms obtain s0 s2
    where ac: "analyze_connected E serverPath' args' s0 = (Inr res, s2)"
      and cl: "snd s1 = snd s2 @ [EvClientClose]"
    by (auto simp: analyzeServer_def client_close_def perform_def split: prod.splits sum.splits)
  from analyze_connected_success[OF ac] cl show ?thesis by auto
qed

lemma last_write_append:
  "last_write p (xs @ ys) =
     (case last_write p ys of Some t \<Rightarrow> Some t | None \<Rightarrow> last_write p xs)"
  by (induction xs) (auto split: option.splits)

lemma map_of_saved_capabilities:
  "get_prop (Some (ServerConfig_object en ed sp ar pr caps now)) ''capabilities'' =
     Inr (Some (ServerCapabilities_object caps))"
  by (cases en; cases ed; cases pr) (simp_all add: ServerConfig_object_def)

lemma map_of_saved_metadata:
  "get_prop (Some (ServerConfig_object en ed sp ar pr caps now)) ''metadata'' =
     Inr (Some (JObj [(''analyzedAt'', JStr now),
                      (''toolCount'', JNum (int (length (tools caps)))),
                      (''resourceCount'', JNum (int (length (resources caps)))),
                      (''promptCount'', JNum (int (length (prompts caps))))]))"
  by (cases en; cases ed; cases pr) (simp_all add: ServerConfig_object_def)

lemma z_both_Inr: "z_both a b = Inr (x, y) \<Longrightarrow> a = Inr x \<and> b = Inr y"
  by (auto simp: z_both_def split: sum.splits)

lemma WrapperConfigSchema_parse_Inr:
  assumes "WrapperConfigSchema_parse v = Inr cfg"
  shows "\<exists>kvs. v = JObj kvs
       \<and> capabilities_schema_parse [Key ''capabilities''] (map_of kvs ''capabilities'') =
           Inr (capabilities cfg)
       \<and> metadata_schema_parse [Key ''metadata''] (map_of kvs ''metadata'') = Inr (metadata cfg)"
proof -
  from assms obtain kvs where v: "v = JObj kvs"
    by (cases v) (auto simp: WrapperConfigSchema_parse_def)
  from assms obtain n d sp a pr c m where
    zb: "z_both (z_string [Key ''name''] (map_of kvs ''name''))
           (z_both (z_string [Key ''description''] (map_of kvs ''description''))
           (z_both (z_string [Key ''serverPath''] (map_of kvs ''serverPath''))
           (z_both (z_array_string [Key ''args''] (map_of kvs ''args''))
           (z_both (z_string [Key ''systemPrompt''] (map_of kvs ''systemPrompt''))
           (z_both (capabilities_schema_parse [Key ''capabilities''] (map_of kvs ''capabilities''))
                   (metadata_schema_parse [Key ''metadata''] (map_of kvs ''metadata''))))))) =
         Inr (n, d, sp, a, pr, c, m)"
    and cfg: "cfg = \<lparr> name = n, description = d, serverPath = sp, args = a, systemPrompt = pr,
                      capabilities = c, metadata = m \<rparr>"
    unfolding v WrapperConfigSchema_parse_def by (simp split: sum.splits prod.splits)
  from zb have "capabilities_schema_parse [Key ''capabilities''] (map_of kvs ''capabilities'') = Inr c
     \<and> metadata_schema_parse [Key ''metadata''] (map_of kvs ''metadata'') = Inr m"
    by (blast dest: z_both_Inr)
  with v cfg show ?thesis by simp
qed

lemma saved_descriptor_counts:
  assumes "WrapperConfigSchema_parse (ServerConfig_object en ed sp ar pr caps now) = Inr cfg"
  shows "capabilities cfg = caps
       \<and> toolCount (metadata cfg) = int (length (tools caps))
       \<and> resourceCount (metadata cfg) = int (length (resources caps))
       \<and> promptCount (metadata cfg) = int (length (prompts caps))"
proof -
  from WrapperConfigSchema_parse_Inr[OF assms] obtain kvs
    where kvs: "ServerConfig_object en ed sp ar pr caps now = JObj kvs"
      and c: "capabilities_schema_parse [Key ''capabilities''] (map_of kvs ''capabilities'') =
              Inr (capabilities cfg)"
      and m: "metadata_schema_parse [Key ''metadata''] (map_of kvs ''metadata'') = Inr (metadata cfg)"
    by blast
  have c': "map_of kvs ''capabilities'' = Some (ServerCapabilities_object caps)"
    using map_of_saved_capabilities[of en ed sp ar pr caps now] by (simp add: kvs)
  have m': "map_of kvs ''metadata'' =
     Some (JObj [(''analyzedAt'', JStr now),
                 (''toolCount'', JNum (int (length (tools caps)))),
                 (''resourceCount'', JNum (int (length (resources caps)))),
                 (''promptCount'', JNum (int (length (prompts caps))))])"
    using map_of_saved_metadata[of en ed sp ar pr caps now] by (simp add: kvs)
  have "capabilities cfg = caps"
    using c by (cases caps) (simp add: c' capabilities_schema_parse_def ServerCapabilities_object_def z_both_def)
  moreover have "metadata cfg = \<lparr> analyzedAt = now, toolCount = int (length (tools caps)),
       resourceCount = int (length (resources caps)), promptCount = int (length (prompts caps)) \<rparr>"
    using m by (simp add: m' metadata_schema_parse_def z_both_def)
  ultimately show ?thesis by simp
qed

text \<open>
  Claim C7. Let a discovery run succeed, let the descriptor file hold at load time the
  text the run wrote, and let \<^verbatim>\<open>JSON.parse\<close> give back the value that
  \<^verbatim>\<open>JSON.stringify\<close> printed. If loading that file succeeds, the loaded capabilities are
  the discovered ones and each stored count equals the length of its list.
\<close>

theorem C7_written_then_loaded_counts_match:
  assumes "analyzeServer E serverPath' args' s = (Inr res, s1)"
    and "fs_readFile E (ar_configPath res) (fst s2) = (Inr txt, w)"
    and "last_write (ar_configPath res) (snd s1) = Some txt"
    and "\<forall>d. txt = JSON_stringify E d \<longrightarrow> JSON_parse E txt = Inr d"
    and "loadConfig E (ar_configPath res) s2 = (Inr cfg, s3)"
  shows "capabilities cfg = ar_capabilities res
       \<and> toolCount (metadata cfg) = int (length (tools (capabilities cfg)))
       \<and> resourceCount (metadata cfg) = int (length (resources (capabilities cfg)))
       \<and> promptCount (metadata cfg) = int (length (prompts (capabilities cfg)))"
proof -
  from analyzeServer_success[OF assms(1)] obtain en ed pr now tr0 where
    tr: "snd s1 = tr0 @ [EvWriteFile (ar_configPath res)
           (JSON_stringify E
              (ServerConfig_object en ed serverPath' args' pr (ar_capabilities res) now)),
           EvClientClose]"
    by blast
  let ?doc = "ServerConfig_object en ed serverPath' args' pr (ar_capabilities res) now"
  have "last_write (ar_configPath res) (snd s1) = Some (JSON_stringify E ?doc)"
    by (simp add: tr last_write_append)
  with assms(3) have written: "txt = JSON_stringify E ?doc" by simp
  with assms(4) have parsed: "JSON_parse E txt = Inr ?doc" by blast
  have "WrapperConfigSchema_parse ?doc = Inr cfg"
    using assms(5) assms(2)
    by (simp add: loadConfig_def readFile_def perform_def parsed split: sum.splits)
  from saved_descriptor_counts[OF this] show ?thesis by simp
qed

section \<open>Examples\<close>

lemma demo_texts_distinct:
  "json_text (JObj demo_plan_fields) \<noteq> json_text demo_descriptor"
  "json_text (JObj demo_plan_fields) \<noteq> json_text stale_descriptor"
  "json_text (JObj demo_plan_fields) \<noteq> json_text demo_analysis"
  "json_text wrong_shape_reply \<noteq> json_text demo_descriptor"
  "json_text wrong_shape_reply \<noteq> json_text stale_descriptor"
  "json_text wrong_shape_reply \<noteq> json_text demo_analysis"
  "json_text wrong_shape_reply \<noteq> json_text (JObj demo_plan_fields)"
  "json_text demo_analysis \<noteq> json_text demo_descriptor"
  "json_text demo_analysis \<noteq> json_text stale_descriptor"
  "json_text stale_descriptor \<noteq> json_text demo_descriptor"
  by (simp_all add: demo_plan_fields_def demo_descriptor_def ServerConfig_object_def dq_def
      stale_descriptor_def demo_analysis_def wrong_shape_reply_def)

lemma demo_parse_table:
  "demo_parse (json_text demo_descriptor) = Inr demo_descriptor"
  "demo_parse (json_text stale_descriptor) = Inr stale_descriptor"
  "demo_parse (json_text demo_analysis) = Inr demo_analysis"
  "demo_parse (json_text (JObj demo_plan_fields)) = Inr (JObj demo_plan_fields)"
  "demo_parse (json_text wrong_shape_reply) = Inr wrong_shape_reply"
  using demo_texts_distinct by (simp_all add: demo_parse_def)

lemma JSON_parse_demo_env: "JSON_parse (demo_env reply) = demo_parse"
  by (simp add: demo_env_def)

lemma demo_parse_not_json:
  "demo_parse ''I cannot help with that.'' = Inl (Error ''Unexpected token in JSON at position 0'')"
  by (simp add: demo_parse_def demo_plan_fields_def demo_descriptor_def ServerConfig_object_def dq_def
      stale_descriptor_def demo_analysis_def wrong_shape_reply_def)

text \<open>
  C8 at a name with a double space, a tab and a trailing space.
\<close>

theorem C8_witness:
  "td_name (createExpertTool (demo_config \<lparr> name := ''File  System'' @ [CHR 0x09] @ ''Expert '' \<rparr>)) =
     ''file-system-expert-''"
proof -
  let ?config = "demo_config \<lparr> name := ''File  System'' @ [CHR 0x09] @ ''Expert '' \<rparr>"
  have n: "name ?config =
      [] @ spaced_words ''File'' [(''  '', ''System''), ([CHR 0x09], ''Expert'')] @ '' ''"
    by simp
  have l: "is_blank []"
    by (simp add: is_blank_def)
  have w: "is_word ''File''"
    by (simp add: is_word_def is_whitespace_def)
  have r: "list_all (\<lambda>(g, w'). is_gap g \<and> is_word w') [(''  '', ''System''), ([CHR 0x09], ''Expert'')]"
    by (simp add: is_word_def is_gap_def is_whitespace_def)
  have t: "is_blank '' ''"
    by (simp add: is_blank_def is_whitespace_def)
  from C8_entry_point_name[OF n l w r t] show ?thesis
    by (simp add: edge_hyphen_def toLowerCase_def toLowerCase_char_def is_upper_def char_of_def bit_0)
qed

text \<open>
  C1 at the partial-failure scenario: the first planned call names a tool the peer does
  not have, the second is valid; both are attempted and both have an entry.
\<close>

theorem C1_witness:
  "handleExpertQuery (demo_env (Inr (json_text (JObj demo_plan_fields)))) ''Please add 15 and 27'' None
     demo_config ([], []) =
   (Inr (ExecuteResult (Some (JStr ''Adding the two numbers''))
          [ToolError (Some (JStr ''subtract'')) ''MCP error -32602: Tool not found'',
           ToolResult (Some (JStr ''add''))
             (Some (JArr [JObj [(''type'', JStr ''text''), (''text'', JStr ''42'')]]))]),
    ([], [EvListTools,
          EvGenerateText (coordinationPrompt (demo_env (Inr (json_text (JObj demo_plan_fields))))
                            demo_config [echo_tool, add_tool] ''Please add 15 and 27''),
          EvCallTool (Some (JStr ''subtract'')) (Some (JObj [(''a'', JNum 15), (''b'', JNum 27)])),
          EvCallTool (Some (JStr ''add'')) (Some (JObj [(''a'', JNum 15), (''b'', JNum 27)]))]))"
proof -
  let ?E = "demo_env (Inr (json_text (JObj demo_plan_fields)))"
  let ?s = "([], []) :: files state"
  have m: "None = None \<or> None = Some ''execute''" by simp
  have lt: "peer_listTools ?E (fst ?s) = (Inr (Some [echo_tool, add_tool]), [])"
    by (simp add: demo_env_def)
  have gen: "llm_generateText ?E
      (coordinationPrompt ?E demo_config (or_empty (Some [echo_tool, add_tool])) ''Please add 15 and 27'') [] =
      (Inr (json_text (JObj demo_plan_fields)), [])"
    by (simp add: demo_env_def)
  have p: "JSON_parse ?E (json_text (JObj demo_plan_fields)) = Inr (JObj demo_plan_fields)"
    by (simp only: JSON_parse_demo_env demo_parse_table)
  have tc: "map_of demo_plan_fields ''toolCalls'' = Some (JArr demo_calls)"
    by (simp add: demo_plan_fields_def)
  have ob: "list_all is_object demo_calls"
    by (simp add: demo_calls_def)
  from C1_execute_attempts_every_planned_call[OF m lt gen p tc ob]
  show ?thesis
    by (simp add: demo_env_def demo_callTool_def demo_calls_def demo_plan_fields_def call_event_def)
qed

text \<open>
  C2 as stated fails. The reply \<^verbatim>\<open>{"answer":42}\<close> is JSON and not an Invocation Plan;
  the query does not fail: it returns an empty result list and no explanation.
\<close>

theorem C2_counterexample:
  "JSON_parse (demo_env (Inr (json_text wrong_shape_reply))) (json_text wrong_shape_reply) =
     Inr wrong_shape_reply
   \<and> \<not> is_InvocationPlan wrong_shape_reply
   \<and> handleExpertQuery (demo_env (Inr (json_text wrong_shape_reply))) ''Please add 15 and 27''
        (Some ''execute'') demo_config ([], []) =
      (Inr (ExecuteResult None []),
       ([], [EvListTools,
             EvGenerateText (coordinationPrompt (demo_env (Inr (json_text wrong_shape_reply)))
                               demo_config [echo_tool, add_tool] ''Please add 15 and 27'')]))"
proof -
  let ?E = "demo_env (Inr (json_text wrong_shape_reply))"
  have p: "JSON_parse ?E (json_text wrong_shape_reply) = Inr wrong_shape_reply"
    by (simp add: demo_env_def demo_parse_table)
  have n: "\<not> is_InvocationPlan wrong_shape_reply"
    by (simp add: wrong_shape_reply_def)
  have lt: "client_listTools ?E ([], []) = (Inr (Some [echo_tool, add_tool]), ([], [EvListTools]))"
    by (simp add: client_listTools_def perform_def demo_env_def)
  have co: "coordinate ?E txt' ([], [EvListTools]) =
      (Inr (ExecuteResult None []), ([], [EvListTools, EvGenerateText txt']))" for txt'
    using p by (simp add: coordinate_def generateText_def perform_def or_empty_array_def
        wrong_shape_reply_def demo_env_def)
  have "handleExpertQuery ?E ''Please add 15 and 27'' (Some ''execute'') demo_config ([], []) =
      (Inr (ExecuteResult None []),
       ([], [EvListTools,
             EvGenerateText (coordinationPrompt ?E demo_config [echo_tool, add_tool]
                               ''Please add 15 and 27'')]))"
    by (simp add: handleExpertQuery_def handle_execute_def lt co)
  with p n show ?thesis by simp
qed

lemma parsing_env_fields:
  "peer_listTools (parsing_env v) = (\<lambda>w. (Inr (Some [echo_tool, add_tool]), w))"
  "llm_generateText (parsing_env v) = (\<lambda>prompt w. (Inr (json_text v), w))"
  "JSON_parse (parsing_env v) (json_text v) = Inr v"
  "peer_callTool (parsing_env v) = demo_callTool"
  "not_iterable_message (parsing_env v) = demo_not_iterable"
  "fs_readFile (parsing_env v) = demo_readFile"
  "ZodError_message (parsing_env v) = (\<lambda>issues. ''Invalid input'')"
  by (simp_all add: parsing_env_def demo_env_def)

text \<open>
  C2 as amended, at six replies: text that is not JSON, \<^verbatim>\<open>null\<close>, a number for
  \<open>toolCalls\<close>, an object without \<open>toolCalls\<close>, a list of entries that are not
  well-formed calls, and a list with a \<^verbatim>\<open>null\<close> entry after a call.
\<close>

theorem C2_witness:
  "handleExpertQuery (demo_env (Inr ''I cannot help with that.'')) ''Please add 15 and 27''
     (Some ''execute'') demo_config ([], []) =
   (Inl (Error ''Failed to coordinate with wrapped server: Unexpected token in JSON at position 0''),
    ([], [EvListTools,
          EvGenerateText (coordinationPrompt (demo_env (Inr ''I cannot help with that.''))
                            demo_config [echo_tool, add_tool] ''Please add 15 and 27'')]))
 \<and> handleExpertQuery (parsing_env JNull) ''Please add 15 and 27'' None demo_config ([], []) =
   (Inl (Error (''Failed to coordinate with wrapped server: '' @
                ''Cannot read properties of null (reading '' @ quoted ''toolCalls'' @ '')'')),
    ([], [EvListTools,
          EvGenerateText (coordinationPrompt (parsing_env JNull)
                            demo_config [echo_tool, add_tool] ''Please add 15 and 27'')]))
 \<and> handleExpertQuery (parsing_env number_toolCalls_reply) ''Please add 15 and 27'' None
     demo_config ([], []) =
   (Inl (Error (''Failed to coordinate with wrapped server: '' @
                ''number 5 is not iterable (cannot read property Symbol(Symbol.iterator))'')),
    ([], [EvListTools,
          EvGenerateText (coordinationPrompt (parsing_env number_toolCalls_reply)
                            demo_config [echo_tool, add_tool] ''Please add 15 and 27'')]))
 \<and> handleExpertQuery (parsing_env wrong_shape_reply) ''Please add 15 and 27'' None
     demo_config ([], []) =
   (Inr (ExecuteResult None []),
    ([], [EvListTools,
          EvGenerateText (coordinationPrompt (parsing_env wrong_shape_reply)
                            demo_config [echo_tool, add_tool] ''Please add 15 and 27'')]))
 \<and> handleExpertQuery (parsing_env loose_entries_reply) ''Please add 15 and 27'' None
     demo_config ([], []) =
   (Inr (ExecuteResult None
          [ToolResult (Some (JStr ''add''))
             (Some (JArr [JObj [(''type'', JStr ''text''), (''text'', JStr ''42'')]])),
           ToolError None ''MCP error -32602: Tool not found'']),
    ([], [EvListTools,
          EvGenerateText (coordinationPrompt (parsing_env loose_entries_reply)
                            demo_config [echo_tool, add_tool] ''Please add 15 and 27''),
          EvCallTool (Some (JStr ''add'')) None,
          EvCallTool None None]))
 \<and> handleExpertQuery (parsing_env null_entry_reply) ''Please add 15 and 27'' None
     demo_config ([], []) =
   (Inl (Error (''Failed to coordinate with wrapped server: '' @
                ''Cannot read properties of null (reading '' @ quoted ''name'' @ '')'')),
    ([], [EvListTools,
          EvGenerateText (coordinationPrompt (parsing_env null_entry_reply)
                            demo_config [echo_tool, add_tool] ''Please add 15 and 27''),
          EvCallTool (Some (JStr ''add'')) (Some (JObj [(''a'', JNum 15), (''b'', JNum 27)]))]))"
proof -
  let ?q = "''Please add 15 and 27''"
  let ?s = "([], []) :: files state"
  have m: "None = None \<or> None = Some ''execute''" by simp
  have m': "Some ''execute'' = None \<or> Some ''execute'' = Some ''execute''" by simp
  have lt: "peer_listTools (parsing_env v) (fst ?s) = (Inr (Some [echo_tool, add_tool]), [])" for v
    by (simp add: parsing_env_fields)
  have gen: "llm_generateText (parsing_env v)
      (coordinationPrompt (parsing_env v) demo_config (or_empty (Some [echo_tool, add_tool])) ?q) [] =
      (Inr (json_text v), [])" for v
    by (simp add: parsing_env_fields)
  have parse: "JSON_parse (parsing_env v) (json_text v) = Inr v" for v
    by (rule parsing_env_fields)
  note at = C2_execute_rejects_only_what_it_cannot_run[OF m lt gen refl]
  let ?D = "demo_env (Inr ''I cannot help with that.'')"
  have ltD: "peer_listTools ?D (fst ?s) = (Inr (Some [echo_tool, add_tool]), [])"
    by (simp add: demo_env_def)
  have genD: "llm_generateText ?D
      (coordinationPrompt ?D demo_config (or_empty (Some [echo_tool, add_tool])) ?q) [] =
      (Inr ''I cannot help with that.'', [])"
    by (simp add: demo_env_def)
  have pD: "JSON_parse ?D ''I cannot help with that.'' =
            Inl (Error ''Unexpected token in JSON at position 0'')"
    by (simp add: JSON_parse_demo_env demo_parse_not_json)
  from C2_execute_rejects_only_what_it_cannot_run[OF m' ltD genD refl, THEN conjunct1, THEN mp, OF pD]
  have w1: "handleExpertQuery ?D ?q (Some ''execute'') demo_config ([], []) =
     (Inl (Error ''Failed to coordinate with wrapped server: Unexpected token in JSON at position 0''),
      ([], [EvListTools, EvGenerateText (coordinationPrompt ?D demo_config [echo_tool, add_tool] ?q)]))"
    by simp
  from at[of JNull, THEN conjunct2, THEN conjunct1, THEN mp, OF parse]
  have w2: "handleExpertQuery (parsing_env JNull) ?q None demo_config ([], []) =
     (Inl (Error (''Failed to coordinate with wrapped server: '' @
                  ''Cannot read properties of null (reading '' @ quoted ''toolCalls'' @ '')'')),
      ([], [EvListTools,
            EvGenerateText (coordinationPrompt (parsing_env JNull) demo_config
                              [echo_tool, add_tool] ?q)]))"
    by simp
  have p3: "JSON_parse (parsing_env number_toolCalls_reply) (json_text number_toolCalls_reply) =
              Inr (JObj [(''toolCalls'', JNum 5)])
          \<and> map_of [(''toolCalls'', JNum 5)] ''toolCalls'' = Some (JNum 5)
          \<and> truthy (Some (JNum 5)) \<and> planned_entries (JNum 5) = None"
    using parse[of number_toolCalls_reply] by (simp add: number_toolCalls_reply_def)
  from at[of number_toolCalls_reply, THEN conjunct2, THEN conjunct2, THEN conjunct1, THEN mp, OF p3]
  have w3: "handleExpertQuery (parsing_env number_toolCalls_reply) ?q None demo_config ([], []) =
     (Inl (Error (''Failed to coordinate with wrapped server: '' @
                  ''number 5 is not iterable (cannot read property Symbol(Symbol.iterator))'')),
      ([], [EvListTools,
            EvGenerateText (coordinationPrompt (parsing_env number_toolCalls_reply) demo_config
                              [echo_tool, add_tool] ?q)]))"
    by (simp add: parsing_env_fields string_of_int_def string_of_nat.simps char_of_def bit_0)
  have p4: "JSON_parse (parsing_env wrong_shape_reply) (json_text wrong_shape_reply) =
              Inr wrong_shape_reply
          \<and> wrong_shape_reply \<noteq> JNull
          \<and> \<not> truthy (call_field wrong_shape_reply ''toolCalls'')"
    using parse[of wrong_shape_reply] by (simp add: wrong_shape_reply_def)
  from at[of wrong_shape_reply, THEN conjunct2, THEN conjunct2, THEN conjunct2, THEN conjunct1,
      THEN mp, OF p4]
  have w4: "handleExpertQuery (parsing_env wrong_shape_reply) ?q None demo_config ([], []) =
     (Inr (ExecuteResult None []),
      ([], [EvListTools,
            EvGenerateText (coordinationPrompt (parsing_env wrong_shape_reply) demo_config
                              [echo_tool, add_tool] ?q)]))"
    by (simp add: wrong_shape_reply_def)
  have p5: "JSON_parse (parsing_env loose_entries_reply) (json_text loose_entries_reply) =
              Inr (JObj [(''toolCalls'', JArr [JObj [(''name'', JStr ''add'')], JNum 7])])
          \<and> map_of [(''toolCalls'', JArr [JObj [(''name'', JStr ''add'')], JNum 7])] ''toolCalls'' =
              Some (JArr [JObj [(''name'', JStr ''add'')], JNum 7])
          \<and> planned_entries (JArr [JObj [(''name'', JStr ''add'')], JNum 7]) =
              Some [JObj [(''name'', JStr ''add'')], JNum 7]
          \<and> JNull \<notin> set [JObj [(''name'', JStr ''add'')], JNum 7]"
    using parse[of loose_entries_reply] by (simp add: loose_entries_reply_def)
  from at[of loose_entries_reply, THEN conjunct2, THEN conjunct2, THEN conjunct2, THEN conjunct2,
      THEN conjunct1, THEN mp, OF p5]
  have w5: "handleExpertQuery (parsing_env loose_entries_reply) ?q None demo_config ([], []) =
     (Inr (ExecuteResult None
            [ToolResult (Some (JStr ''add''))
               (Some (JArr [JObj [(''type'', JStr ''text''), (''text'', JStr ''42'')]])),
             ToolError None ''MCP error -32602: Tool not found'']),
      ([], [EvListTools,
            EvGenerateText (coordinationPrompt (parsing_env loose_entries_reply) demo_config
                              [echo_tool, add_tool] ?q),
            EvCallTool (Some (JStr ''add'')) None,
            EvCallTool None None]))"
    by (simp add: parsing_env_fields demo_callTool_def call_event_def)
  let ?add = "JObj [(''name'', JStr ''add''),
                    (''arguments'', JObj [(''a'', JNum 15), (''b'', JNum 27)])]"
  let ?kvs = "[(''toolCalls'', JArr [?add, JNull]),
               (''explanation'', JStr ''Adding the two numbers'')]"
  have p6: "JSON_parse (parsing_env null_entry_reply) (json_text null_entry_reply) = Inr (JObj ?kvs)
          \<and> map_of ?kvs ''toolCalls'' = Some (JArr [?add, JNull])
          \<and> planned_entries (JArr [?add, JNull]) = Some ([?add] @ JNull # [])
          \<and> JNull \<notin> set [?add]"
    using parse[of null_entry_reply] by (simp add: null_entry_reply_def)
  from at[of null_entry_reply, THEN conjunct2, THEN conjunct2, THEN conjunct2, THEN conjunct2,
      THEN conjunct2, THEN mp, OF p6]
  have w6: "handleExpertQuery (parsing_env null_entry_reply) ?q None demo_config ([], []) =
     (Inl (Error (''Failed to coordinate with wrapped server: '' @
                  ''Cannot read properties of null (reading '' @ quoted ''name'' @ '')'')),
      ([], [EvListTools,
            EvGenerateText (coordinationPrompt (parsing_env null_entry_reply) demo_config
                              [echo_tool, add_tool] ?q),
            EvCallTool (Some (JStr ''add'')) (Some (JObj [(''a'', JNum 15), (''b'', JNum 27)]))]))"
    by (simp add: parsing_env_fields demo_callTool_def call_event_def)
  from w1 w2 w3 w4 w5 w6 show ?thesis by (intro conjI)
qed

text \<open>
  C3 as stated fails. A descriptor file that stores \<open>toolCount = 5\<close> beside an empty
  tool list loads successfully.
\<close>

theorem C3_counterexample:
  "\<exists>cfg s'. loadConfig (demo_env (Inr [])) ''/work/configs/stale-expert-1.json'' (stale_files, []) =
              (Inr cfg, s')
           \<and> toolCount (metadata cfg) = 5
           \<and> length (tools (capabilities cfg)) = 0"
  by (simp add: loadConfig_def readFile_def perform_def demo_env_def demo_readFile_def stale_files_def
      demo_parse_table)
    (simp add: stale_descriptor_def WrapperConfigSchema_parse_def capabilities_schema_parse_def
      metadata_schema_parse_def z_both_def)

text \<open>
  C3 as amended, at the file with the stale count, which loads with the count as stored,
  and at a file whose \<open>toolCount\<close> is a string, which is rejected.
\<close>

theorem C3_witness:
  "loadConfig (demo_env (Inr [])) ''/work/configs/stale-expert-1.json'' (stale_files, []) =
     (Inr \<lparr> name = ''Stale Expert'', description = ''Edited by hand'', serverPath = ''node'',
            args = [''server.js''], systemPrompt = ''Use the tools.'',
            capabilities = \<lparr> tools = [], resources = [], prompts = [] \<rparr>,
            metadata = \<lparr> analyzedAt = ''2025-09-04T02:34:20.051Z'', toolCount = 5,
                         resourceCount = 0, promptCount = 0 \<rparr> \<rparr>,
      (stale_files, [EvReadFile ''/work/configs/stale-expert-1.json'']))
 \<and> has_descriptor_types stale_descriptor
 \<and> \<not> has_descriptor_types mistyped_descriptor
 \<and> loadConfig (parsing_env mistyped_descriptor) ''/work/configs/stale-expert-2.json''
       (mistyped_files, []) =
     (Inl (Error ''Failed to load configuration: Invalid input''),
      (mistyped_files, [EvReadFile ''/work/configs/stale-expert-2.json'']))"
proof -
  let ?E = "demo_env (Inr [])"
  let ?cs = "[(''tools'', JArr []), (''resources'', JArr []), (''prompts'', JArr [])]"
  let ?ms = "[(''analyzedAt'', JStr ''2025-09-04T02:34:20.051Z''),
              (''toolCount'', JNum 5), (''resourceCount'', JNum 0), (''promptCount'', JNum 0)]"
  let ?kvs = "[(''name'', JStr ''Stale Expert''),
           (''description'', JStr ''Edited by hand''),
           (''serverPath'', JStr ''node''),
           (''args'', JArr [JStr ''server.js'']),
           (''systemPrompt'', JStr ''Use the tools.''),
           (''capabilities'', JObj ?cs),
           (''metadata'', JObj ?ms)]"
  have rd: "fs_readFile ?E ''/work/configs/stale-expert-1.json'' (fst (stale_files, [])) =
            (Inr (json_text stale_descriptor), stale_files)"
    by (simp add: demo_env_def demo_readFile_def stale_files_def)
  have p: "JSON_parse ?E (json_text stale_descriptor) = Inr stale_descriptor"
    by (simp only: JSON_parse_demo_env demo_parse_table)
  have typed: "stale_descriptor = JObj ?kvs
            \<and> map_of ?kvs ''name'' = Some (JStr ''Stale Expert'')
            \<and> map_of ?kvs ''description'' = Some (JStr ''Edited by hand'')
            \<and> map_of ?kvs ''serverPath'' = Some (JStr ''node'')
            \<and> map_of ?kvs ''args'' = Some (JArr (map JStr [''server.js'']))
            \<and> map_of ?kvs ''systemPrompt'' = Some (JStr ''Use the tools.'')
            \<and> map_of ?kvs ''capabilities'' = Some (JObj ?cs)
            \<and> map_of ?cs ''tools'' = Some (JArr [])
            \<and> map_of ?cs ''resources'' = Some (JArr [])
            \<and> map_of ?cs ''prompts'' = Some (JArr [])
            \<and> map_of ?kvs ''metadata'' = Some (JObj ?ms)
            \<and> map_of ?ms ''analyzedAt'' = Some (JStr ''2025-09-04T02:34:20.051Z'')
            \<and> map_of ?ms ''toolCount'' = Some (JNum 5)
            \<and> map_of ?ms ''resourceCount'' = Some (JNum 0)
            \<and> map_of ?ms ''promptCount'' = Some (JNum 0)"
    by (simp add: stale_descriptor_def)
  note stale = C3_loading_validates_types_only[OF rd p]
  from stale[THEN conjunct2, THEN conjunct2, THEN mp, OF typed]
  have w1: "loadConfig ?E ''/work/configs/stale-expert-1.json'' (stale_files, []) =
     (Inr \<lparr> name = ''Stale Expert'', description = ''Edited by hand'', serverPath = ''node'',
            args = [''server.js''], systemPrompt = ''Use the tools.'',
            capabilities = \<lparr> tools = [], resources = [], prompts = [] \<rparr>,
            metadata = \<lparr> analyzedAt = ''2025-09-04T02:34:20.051Z'', toolCount = 5,
                         resourceCount = 0, promptCount = 0 \<rparr> \<rparr>,
      (stale_files, [EvReadFile ''/work/configs/stale-expert-1.json'']))"
    by simp
  from stale[THEN conjunct1] w1 have w2: "has_descriptor_types stale_descriptor"
    by auto
  let ?M = "parsing_env mistyped_descriptor"
  have rdM: "fs_readFile ?M ''/work/configs/stale-expert-2.json'' (fst (mistyped_files, [])) =
            (Inr (json_text mistyped_descriptor), mistyped_files)"
    by (simp add: parsing_env_fields demo_readFile_def mistyped_files_def)
  have pM: "JSON_parse ?M (json_text mistyped_descriptor) = Inr mistyped_descriptor"
    by (rule parsing_env_fields)
  have w3: "\<not> has_descriptor_types mistyped_descriptor"
    by (simp add: has_descriptor_types_def has_capability_lists_def has_provenance_fields_def
        mistyped_descriptor_def)
  from C3_loading_validates_types_only[OF rdM pM, THEN conjunct2, THEN conjunct1, THEN mp, OF w3]
  have w4: "loadConfig ?M ''/work/configs/stale-expert-2.json'' (mistyped_files, []) =
     (Inl (Error ''Failed to load configuration: Invalid input''),
      (mistyped_files, [EvReadFile ''/work/configs/stale-expert-2.json'']))"
    by (auto simp: parsing_env_fields)
  from w1 w2 w3 w4 show ?thesis by (intro conjI)
qed

text \<open>
  C4 at a peer without resources and prompts, and at a peer without tool support.
\<close>

theorem C4_witness:
  "discoverCapabilities (demo_env (Inr [])) ([], []) =
     (Inr \<lparr> tools = [echo_tool, add_tool], resources = [], prompts = [] \<rparr>,
      ([], [EvListTools, EvListResources, EvListPrompts]))
   \<and> discoverCapabilities no_tools_env ([], []) =
     (Inl (Error ''MCP error -32601: Method not found''), ([], [EvListTools]))
   \<and> analyzeServer no_tools_env ''node'' [''server.js''] ([], []) =
     (Inl (Error ''MCP error -32601: Method not found''),
      ([], [EvConnect ''node'' [''server.js''], EvListTools, EvClientClose]))"
proof -
  have a: "\<exists>caps s'. discoverCapabilities (demo_env (Inr [])) ([], []) = (Inr caps, s')
         \<and> tools caps = [echo_tool, add_tool] \<and> resources caps = [] \<and> prompts caps = []"
    using C4_tools_mandatory_resources_and_prompts_optional[where E = "demo_env (Inr [])"
        and s = "([], [])" and t = "Some [echo_tool, add_tool]" and ?w1.0 = "[]"]
    by (simp add: demo_env_def)
  have b: "discoverCapabilities no_tools_env ([], []) =
     (Inl (Error ''MCP error -32601: Method not found''), ([], [EvListTools]))"
    using C4_tools_mandatory_resources_and_prompts_optional[where E = no_tools_env
        and s = "([], [])" and e = "Error ''MCP error -32601: Method not found''" and ?w1.0 = "[]"]
    by (simp add: no_tools_env_def demo_env_def)
  have c': "analyzeServer no_tools_env ''node'' [''server.js''] ([], []) =
     (Inl (Error ''MCP error -32601: Method not found''),
      ([], [EvConnect ''node'' [''server.js''], EvListTools, EvClientClose]))"
    using C4_tools_mandatory_resources_and_prompts_optional[where E = no_tools_env
        and s = "([], [])" and e = "Error ''MCP error -32601: Method not found''" and ?w1.0 = "[]"
        and serverPath' = "''node''" and args' = "[''server.js'']" and ?w0.0 = "[]"]
    by (simp add: no_tools_env_def demo_env_def validateEnvironment_def)
  have a': "discoverCapabilities (demo_env (Inr [])) ([], []) =
     (Inr \<lparr> tools = [echo_tool, add_tool], resources = [], prompts = [] \<rparr>,
      ([], [EvListTools, EvListResources, EvListPrompts]))"
    using a by (auto simp: discoverCapabilities_def client_listTools_def client_listResources_def
        client_listPrompts_def perform_def demo_env_def)
  from a' b c' show ?thesis by simp
qed

text \<open>
  C5 at a successful run: the trace holds one close of the client, and it is last.
\<close>

theorem C5_witness:
  "count_list (snd (snd (analyzeServer (demo_env (Inr (json_text demo_analysis))) ''node''
                           [''server.js''] ([], [])))) EvClientClose = 1
   \<and> last (snd (snd (analyzeServer (demo_env (Inr (json_text demo_analysis))) ''node''
                       [''server.js''] ([], [])))) = EvClientClose"
proof -
  let ?E = "demo_env (Inr (json_text demo_analysis))"
  have v: "validateEnvironment ?E = Inr ()"
    by (simp add: validateEnvironment_def demo_env_def)
  have c: "peer_connect ?E ''node'' [''server.js''] (fst (([], []) :: files state)) = (Inr (), [])"
    by (simp add: demo_env_def)
  from C5_connection_closed_exactly_once[OF v c] obtain mid where
    "snd (snd (analyzeServer ?E ''node'' [''server.js''] ([], []))) =
       snd (([], []) :: files state) @ [EvConnect ''node'' [''server.js'']] @ mid @ [EvClientClose]"
    and "EvClientClose \<notin> set mid"
    by blast
  then show ?thesis by (simp add: count_list_0_iff)
qed

text \<open>
  C6 as stated fails. When closing the peer connection throws, the serving transport is
  never closed.
\<close>

theorem C6_counterexample:
  "on_SIGINT peer_close_fails_env ([], []) = (Rejected (Error ''Connection closed''), ([], [EvClientClose]))
   \<and> EvServerClose \<notin> set (snd (snd (on_SIGINT peer_close_fails_env ([], []))))"
  by (simp add: on_SIGINT_def client_close_def perform_def peer_close_fails_env_def demo_env_def)

text \<open>
  C6 as amended, at a failing peer close, a failing transport close and a clean
  shutdown.
\<close>

theorem C6_witness:
  "on_SIGINT peer_close_fails_env ([], []) =
     (Rejected (Error ''Connection closed''), ([], [EvClientClose]))
   \<and> on_SIGINT transport_close_fails_env ([], []) =
     (Rejected (Error ''Not connected''), ([], [EvClientClose, EvServerClose]))
   \<and> on_SIGINT (demo_env (Inr [])) ([], []) =
     (Exited 0, ([], [EvClientClose, EvServerClose, EvExit 0]))"
  using C6_shutdown_stops_at_the_first_failing_close[where E = peer_close_fails_env
      and s = "([], [])" and e = "Error ''Connection closed''" and ?w1.0 = "[]"]
    C6_shutdown_stops_at_the_first_failing_close[where E = transport_close_fails_env
      and s = "([], [])" and e = "Error ''Not connected''" and ?w1.0 = "[]" and ?w2.0 = "[]"]
    C6_shutdown_stops_at_the_first_failing_close[where E = "demo_env (Inr [])"
      and s = "([], [])" and ?w1.0 = "[]" and ?w2.0 = "[]"]
  by (simp add: peer_close_fails_env_def transport_close_fails_env_def demo_env_def)

lemma demo_config_tool_name: "td_name (createExpertTool demo_config) = ''calculator-expert''"
  by (simp add: createExpertTool_def demo_config_def toLowerCase_def toLowerCase_char_def
      is_upper_def is_whitespace_def char_of_def bit_0)

text \<open>
  C9 at the scenario \<open>mode = summarize\<close>.
\<close>

theorem C9_witness:
  "CallToolRequest_handler (demo_env (Inr [])) demo_config (createExpertTool demo_config)
     \<lparr> params_name = ''calculator-expert'',
       params_arguments = Some (JObj [(''query'', JStr ''Summarize my day''),
                                      (''mode'', JStr ''summarize'')]) \<rparr> ([], []) =
   (Inl (Error ''Invalid input''), ([], []))"
proof -
  let ?request = "\<lparr> params_name = ''calculator-expert'',
       params_arguments = Some (JObj [(''query'', JStr ''Summarize my day''),
                                      (''mode'', JStr ''summarize'')]) \<rparr>"
  have n: "params_name ?request = td_name (createExpertTool demo_config)"
    by (simp add: demo_config_tool_name)
  have a: "params_arguments ?request =
           Some (JObj [(''query'', JStr ''Summarize my day''), (''mode'', JStr ''summarize'')])"
    by simp
  have m: "map_of [(''query'', JStr ''Summarize my day''), (''mode'', JStr ''summarize'')] ''mode'' =
           Some (JStr ''summarize'')"
    by simp
  have v: "JStr ''summarize'' \<notin> {JStr ''discover'', JStr ''execute'', JStr ''explain''}"
    by simp
  from C9_mode_outside_enumeration_is_rejected[OF n a m v, of "demo_env (Inr [])" demo_config "([], [])"]
  show ?thesis by (auto simp: demo_env_def)
qed

text \<open>
  C10 at two explain requests with different queries.
\<close>

theorem C10_witness:
  "CallToolRequest_handler (demo_env (Inr [])) demo_config (createExpertTool demo_config)
     \<lparr> params_name = ''calculator-expert'',
       params_arguments = Some (JObj [(''query'', JStr ''What can you do?''),
                                      (''mode'', JStr ''explain'')]) \<rparr> ([], []) =
   CallToolRequest_handler (demo_env (Inr [])) demo_config (createExpertTool demo_config)
     \<lparr> params_name = ''calculator-expert'',
       params_arguments = Some (JObj [(''mode'', JStr ''explain''),
                                      (''query'', JStr ''Please add 15 and 27'')]) \<rparr> ([], [])
   \<and> snd (snd (CallToolRequest_handler (demo_env (Inr [])) demo_config (createExpertTool demo_config)
     \<lparr> params_name = ''calculator-expert'',
       params_arguments = Some (JObj [(''query'', JStr ''What can you do?''),
                                      (''mode'', JStr ''explain'')]) \<rparr> ([], []))) = [EvListTools]"
proof -
  let ?r1 = "\<lparr> params_name = ''calculator-expert'',
       params_arguments = Some (JObj [(''query'', JStr ''What can you do?''),
                                      (''mode'', JStr ''explain'')]) \<rparr>"
  let ?r2 = "\<lparr> params_name = ''calculator-expert'',
       params_arguments = Some (JObj [(''mode'', JStr ''explain''),
                                      (''query'', JStr ''Please add 15 and 27'')]) \<rparr>"
  have m: "''explain'' = ''discover'' \<or> ''explain'' = ''explain''" by simp
  have n1: "params_name ?r1 = td_name (createExpertTool demo_config)"
    by (simp add: demo_config_tool_name)
  have n2: "params_name ?r2 = td_name (createExpertTool demo_config)"
    by (simp add: demo_config_tool_name)
  have a1: "params_arguments ?r1 =
      Some (JObj [(''query'', JStr ''What can you do?''), (''mode'', JStr ''explain'')])" by simp
  have a2: "params_arguments ?r2 =
      Some (JObj [(''mode'', JStr ''explain''), (''query'', JStr ''Please add 15 and 27'')])" by simp
  have q1: "map_of [(''query'', JStr ''What can you do?''), (''mode'', JStr ''explain'')] ''query'' =
      Some (JStr ''What can you do?'')" by simp
  have q2: "map_of [(''mode'', JStr ''explain''), (''query'', JStr ''Please add 15 and 27'')] ''query'' =
      Some (JStr ''Please add 15 and 27'')" by simp
  have m1: "map_of [(''query'', JStr ''What can you do?''), (''mode'', JStr ''explain'')] ''mode'' =
      Some (JStr ''explain'')" by simp
  have m2: "map_of [(''mode'', JStr ''explain''), (''query'', JStr ''Please add 15 and 27'')] ''mode'' =
      Some (JStr ''explain'')" by simp
  note c10 = C10_discover_and_explain_ignore_the_query[OF m n1 n2 a1 a2 q1 q2 m1 m2,
      of "demo_env (Inr [])" demo_config "([], [])"]
  have "snd (snd (handle_explain (demo_env (Inr [])) demo_config ([], []))) = [EvListTools]"
    using handle_explain_trace[of "demo_env (Inr [])" demo_config "([], [])"] by simp
  then have tr: "snd (snd (CallToolRequest_handler (demo_env (Inr [])) demo_config
      (createExpertTool demo_config) ?r1 ([], []))) = [EvListTools]"
    by (auto simp: CallToolRequest_handler_query[OF n1 a1 q1 m1 m] split: prod.splits sum.splits)
  from c10 tr show ?thesis by blast
qed

lemma table_stringify_inverse:
  "\<forall>d. json_text demo_descriptor = table_stringify d \<longrightarrow>
       demo_parse (json_text demo_descriptor) = Inr d"
proof (intro allI impI)
  fix d assume a: "json_text demo_descriptor = table_stringify d"
  have "json_text demo_descriptor \<noteq> json_text (JArr [echo_tool, add_tool])"
    by (simp add: demo_descriptor_def ServerConfig_object_def)
  moreover have "json_text demo_descriptor \<noteq> ''[]''"
    by (simp add: demo_descriptor_def ServerConfig_object_def)
  ultimately have "d = demo_descriptor"
    using a by (simp add: table_stringify_def split: if_splits)
  then show "demo_parse (json_text demo_descriptor) = Inr d"
    by (simp add: demo_parse_table)
qed

lemma roundtrip_env_fields:
  "OPENAI_API_KEY roundtrip_env = Some ''sk-test''"
  "process_cwd roundtrip_env = ''/work''"
  "path_join roundtrip_env = (\<lambda>a b. a @ ''/'' @ b)"
  "JSON_parse roundtrip_env = demo_parse"
  "JSON_stringify roundtrip_env = table_stringify"
  "Date_now roundtrip_env = (\<lambda>w. 1756953260051)"
  "Date_toISOString roundtrip_env = (\<lambda>w. ''2025-09-04T02:34:20.051Z'')"
  "peer_connect roundtrip_env = (\<lambda>command arguments w. (Inr (), w))"
  "peer_listTools roundtrip_env = (\<lambda>w. (Inr (Some [echo_tool, add_tool]), w))"
  "peer_listResources roundtrip_env = (\<lambda>w. (Inl (Error ''MCP error -32601: Method not found''), w))"
  "peer_listPrompts roundtrip_env = (\<lambda>w. (Inl (Error ''MCP error -32601: Method not found''), w))"
  "peer_close roundtrip_env = (\<lambda>w. (Inr (), w))"
  "llm_generateText roundtrip_env = (\<lambda>prompt w. (Inr (json_text demo_analysis), w))"
  "fs_mkdir roundtrip_env = (\<lambda>dir w. (Inr (), w))"
  "fs_writeFile roundtrip_env = (\<lambda>file t w. (Inr (), (file, t) # w))"
  "fs_readFile roundtrip_env = demo_readFile"
  by (simp_all add: roundtrip_env_def demo_env_def)

lemma roundtrip_run:
  "analyzeServer roundtrip_env ''node'' [''server.js''] ([], []) =
     (Inr \<lparr> ar_expertName = Some (JStr ''Calculator  Expert''),
            ar_expertDescription = Some (JStr ''Adds numbers and echoes messages''),
            ar_systemPrompt = Some (JStr ''Use add for sums and echo for messages.''),
            ar_capabilities = demo_capabilities,
            ar_configPath = ''/work/configs/calculator-expert-1756953260051.json'' \<rparr>,
      ([(''/work/configs/calculator-expert-1756953260051.json'', json_text demo_descriptor)],
       [EvConnect ''node'' [''server.js''], EvListTools, EvListResources, EvListPrompts,
        EvGenerateText (analysisPrompt roundtrip_env demo_capabilities),
        EvMkdir ''/work/configs'',
        EvWriteFile ''/work/configs/calculator-expert-1756953260051.json'' (json_text demo_descriptor),
        EvClientClose]))"
proof -
  have d: "discoverCapabilities roundtrip_env ([], [EvConnect ''node'' [''server.js'']]) =
      (Inr demo_capabilities,
       ([], [EvConnect ''node'' [''server.js''], EvListTools, EvListResources, EvListPrompts]))"
    by (simp add: discoverCapabilities_def client_listTools_def client_listResources_def
        client_listPrompts_def perform_def roundtrip_env_fields demo_capabilities_def)
  have l: "analyzeWithLLM roundtrip_env demo_capabilities s =
      (Inr demo_analysis, (fst s, snd s @ [EvGenerateText (analysisPrompt roundtrip_env demo_capabilities)]))"
    for s
    by (simp add: analyzeWithLLM_def generateText_def perform_def roundtrip_env_fields
        demo_parse_table)
  have nm: "replace_whitespace_runs (toLowerCase ''Calculator  Expert'') = ''calculator-expert''"
    by (simp add: toLowerCase_def toLowerCase_char_def is_upper_def is_whitespace_def char_of_def bit_0)
  have num: "string_of_nat 1756953260051 = ''1756953260051''"
    by (simp add: string_of_nat.simps char_of_def bit_0)
  have sv: "saveConfiguration roundtrip_env demo_descriptor ([], tr) =
      (Inr ''/work/configs/calculator-expert-1756953260051.json'',
       ([(''/work/configs/calculator-expert-1756953260051.json'', json_text demo_descriptor)],
        tr @ [EvMkdir ''/work/configs'',
              EvWriteFile ''/work/configs/calculator-expert-1756953260051.json''
                (json_text demo_descriptor)]))" for tr
  proof -
    have g: "get_prop (Some demo_descriptor) ''name'' = Inr (Some (JStr ''Calculator  Expert''))"
      by (simp add: demo_descriptor_def ServerConfig_object_def)
    show ?thesis
      by (simp add: saveConfiguration_def g nm num mkdir_def writeFile_def perform_def Let_def
          roundtrip_env_fields table_stringify_def)
  qed
  have ac: "analyze_connected roundtrip_env ''node'' [''server.js'']
        ([], [EvConnect ''node'' [''server.js'']]) =
     (Inr \<lparr> ar_expertName = Some (JStr ''Calculator  Expert''),
            ar_expertDescription = Some (JStr ''Adds numbers and echoes messages''),
            ar_systemPrompt = Some (JStr ''Use add for sums and echo for messages.''),
            ar_capabilities = demo_capabilities,
            ar_configPath = ''/work/configs/calculator-expert-1756953260051.json'' \<rparr>,
      ([(''/work/configs/calculator-expert-1756953260051.json'', json_text demo_descriptor)],
       [EvConnect ''node'' [''server.js''], EvListTools, EvListResources, EvListPrompts,
        EvGenerateText (analysisPrompt roundtrip_env demo_capabilities),
        EvMkdir ''/work/configs'',
        EvWriteFile ''/work/configs/calculator-expert-1756953260051.json'' (json_text demo_descriptor)]))"
  proof -
    have iso: "Date_toISOString roundtrip_env w = ''2025-09-04T02:34:20.051Z''" for w
      by (simp add: roundtrip_env_fields)
    have doc: "ServerConfig_object (Some (JStr ''Calculator  Expert''))
       (Some (JStr ''Adds numbers and echoes messages'')) ''node'' [''server.js'']
       (Some (JStr ''Use add for sums and echo for messages.'')) demo_capabilities
       ''2025-09-04T02:34:20.051Z'' = demo_descriptor"
      by (simp add: demo_descriptor_def)
    have f: "get_prop (Some demo_analysis) ''expertName'' = Inr (Some (JStr ''Calculator  Expert''))"
      "get_prop (Some demo_analysis) ''expertDescription'' =
         Inr (Some (JStr ''Adds numbers and echoes messages''))"
      "get_prop (Some demo_analysis) ''systemPrompt'' =
         Inr (Some (JStr ''Use add for sums and echo for messages.''))"
      by (simp_all add: demo_analysis_def)
    show ?thesis
      by (simp add: analyze_connected_def d l f iso doc sv)
  qed
  show ?thesis
    by (simp add: analyzeServer_def validateEnvironment_def connectToServer_def client_connect_def
        client_close_def perform_def roundtrip_env_fields ac)
qed

text \<open>
  C7 at a discovery run against the two-tool peer, followed by a load of the file it
  wrote.
\<close>

theorem C7_witness:
  "\<exists>res s1 cfg s3.
     analyzeServer roundtrip_env ''node'' [''server.js''] ([], []) = (Inr res, s1)
   \<and> loadConfig roundtrip_env (ar_configPath res) (fst s1, []) = (Inr cfg, s3)
   \<and> tools (capabilities cfg) = [echo_tool, add_tool]
   \<and> toolCount (metadata cfg) = 2
   \<and> resourceCount (metadata cfg) = 0
   \<and> promptCount (metadata cfg) = 0"
proof -
  let ?p = "''/work/configs/calculator-expert-1756953260051.json''"
  let ?res = "\<lparr> ar_expertName = Some (JStr ''Calculator  Expert''),
            ar_expertDescription = Some (JStr ''Adds numbers and echoes messages''),
            ar_systemPrompt = Some (JStr ''Use add for sums and echo for messages.''),
            ar_capabilities = demo_capabilities,
            ar_configPath = ?p \<rparr>"
  let ?w = "[(?p, json_text demo_descriptor)] :: files"
  let ?tr = "[EvConnect ''node'' [''server.js''], EvListTools, EvListResources, EvListPrompts,
        EvGenerateText (analysisPrompt roundtrip_env demo_capabilities),
        EvMkdir ''/work/configs'',
        EvWriteFile ?p (json_text demo_descriptor),
        EvClientClose]"
  have run: "analyzeServer roundtrip_env ''node'' [''server.js''] ([], []) = (Inr ?res, (?w, ?tr))"
    by (rule roundtrip_run)
  have rd: "fs_readFile roundtrip_env (ar_configPath ?res) (fst (?w, [])) =
            (Inr (json_text demo_descriptor), ?w)"
    by (simp add: roundtrip_env_fields demo_readFile_def)
  have kept: "last_write (ar_configPath ?res) (snd (?w, ?tr)) = Some (json_text demo_descriptor)"
    by simp
  have inv: "\<forall>d. json_text demo_descriptor = JSON_stringify roundtrip_env d \<longrightarrow>
       JSON_parse roundtrip_env (json_text demo_descriptor) = Inr d"
    using table_stringify_inverse by (simp add: roundtrip_env_fields)
  obtain cfg s3 where load: "loadConfig roundtrip_env (ar_configPath ?res) (?w, []) = (Inr cfg, s3)"
  proof -
    have "\<exists>cfg. WrapperConfigSchema_parse demo_descriptor = Inr cfg"
      by (simp add: demo_descriptor_def ServerConfig_object_def WrapperConfigSchema_parse_def
          capabilities_schema_parse_def metadata_schema_parse_def ServerCapabilities_object_def
          z_both_def)
    then obtain cfg where "WrapperConfigSchema_parse demo_descriptor = Inr cfg" by blast
    then have "loadConfig roundtrip_env (ar_configPath ?res) (?w, []) =
               (Inr cfg, (?w, [EvReadFile ?p]))"
      using rd by (simp add: loadConfig_def readFile_def perform_def roundtrip_env_fields
          demo_parse_table)
    then show ?thesis using that by blast
  qed
  from C7_written_then_loaded_counts_match[OF run rd kept inv load]
  have "capabilities cfg = demo_capabilities
      \<and> toolCount (metadata cfg) = int (length (tools (capabilities cfg)))
      \<and> resourceCount (metadata cfg) = int (length (resources (capabilities cfg)))
      \<and> promptCount (metadata cfg) = int (length (prompts (capabilities cfg)))"
    by simp
  then have "tools (capabilities cfg) = [echo_tool, add_tool]
   \<and> toolCount (metadata cfg) = 2 \<and> resourceCount (metadata cfg) = 0 \<and> promptCount (metadata cfg) = 0"
    by (simp add: demo_capabilities_def)
  with run load show ?thesis by (intro exI[of _ ?res] exI[of _ "(?w, ?tr)"] exI[of _ cfg] exI[of _ s3]) simp
qed

end
